theory Spec2Isabelle
  imports Complex_Main
begin

section \<open>Values, errors and the collaborators of the algebra module\<close>

text \<open>
  The development embeds \<^verbatim>\<open>mathematics_dataset/modules/algebra.py\<close> and
  \<^verbatim>\<open>mathematics_dataset/generate_to_file.py\<close>.

  Python integers are \<open>int\<close>, Python floats (entropies, uniform draws) are \<open>real\<close>,
  sympy numbers are \<open>rat\<close>. A Python name with a leading underscore loses it
  (\<open>_sample_roots\<close> is \<open>sample_roots\<close>).

  The process-wide random generator is made explicit: every call site of the random
  generator reads a draw of its own from a record of draws (a function of the iteration
  number where the call site sits in a loop). The draws are arbitrary, so a statement
  proved for all draws holds for every run.
\<close>

text \<open>
  The exceptions a call can end with: those of Python, the failure of \<^verbatim>\<open>sympy.Poly\<close> on
  a constant, and the two fatal errors of a context (an exhausted pool of names, no
  module for a requested entity).
\<close>

datatype error =
    IndexError
  | ValueError
  | KeyError
  | NameError
  | AssertionError
  | GeneratorsNeeded
  | PoolExhausted
  | ConfigurationError

text \<open>
  Symbolic expressions: the numbers, symbols and equalities that the module builds itself,
  and a node for everything else the symbolic engine returns. A slot is a value that
  fills a template or is an answer.
\<close>

datatype expr =
    Number rat
  | Symbol string
  | Eq expr expr
  | Node string "expr list"

datatype slot = Expr expr | NumberList "expr list" | Str string

text \<open>
  Modelled from the spec: the classes \<^verbatim>\<open>Context\<close> and \<^verbatim>\<open>Entity\<close> of
  \<^verbatim>\<open>util/composition.py\<close>, the tuple \<^verbatim>\<open>example.Problem\<close> and the sample arguments,
  none of which is among the source files. A context owns the pool of the variable names
  not used yet and the entities sampled so far; an entity has its context, its value, a
  description, a handle and optional fields (the text of the equations; the expression
  and the polynomial variables that \<^verbatim>\<open>polynomial_roots\<close> reads); a problem is a question
  and an answer; sample arguments are a number of modules and an entropy.
\<close>

datatype "context" = Context (pool: "string list") (entities: "entity list")
and entity = Entity
    (e_context: "context")
    (e_value: expr)
    (e_description: string)
    (e_handle: expr)
    (e_equations: "string option")
    (e_expression: "expr option")
    (e_polynomial_variables: "expr list")

record problem =
  question :: string
  answer :: slot

datatype returned = ReturnsProblem problem | ReturnsEntity entity

record sample_args =
  num_modules :: int
  sa_entropy :: real

text \<open>
  The functions of the repository and of its libraries that the two source files call
  and that are not part of them. A sampler takes the raw draw it consumes as its last
  argument.
\<close>

record lib =
  peel :: "sample_args \<Rightarrow> real \<times> sample_args"
  number_integer :: "real \<Rightarrow> bool \<Rightarrow> nat \<Rightarrow> rat"
  non_integer_rational :: "real \<Rightarrow> bool \<Rightarrow> nat \<Rightarrow> rat"
  integer_or_rational :: "real \<Rightarrow> bool \<Rightarrow> nat \<Rightarrow> rat"
  new_context :: "context"
  context_pop :: "context \<Rightarrow> error + string \<times> context"
  context_sample :: "context \<Rightarrow> sample_args \<Rightarrow> expr list \<Rightarrow> error + entity list \<times> context"
  sample_by_replacing_constants ::
    "context \<Rightarrow> sample_args \<Rightarrow> expr list \<Rightarrow> error + expr list \<times> context"
  linear_system :: "expr list \<Rightarrow> rat list \<Rightarrow> real \<Rightarrow> nat \<Rightarrow> nat \<Rightarrow> expr list"
  number_constants :: "expr list \<Rightarrow> expr list"
  coefficients_to_polynomial :: "rat list \<Rightarrow> expr \<Rightarrow> expr"
  factor :: "expr \<Rightarrow> expr"
  handle_apply :: "expr \<Rightarrow> expr \<Rightarrow> expr"
  str :: "expr \<Rightarrow> string"
  example_question :: "context \<Rightarrow> string \<Rightarrow> (string \<times> slot) list \<Rightarrow> string"
  sample_with_small_evaluation :: "expr \<Rightarrow> int \<Rightarrow> int \<Rightarrow> real \<Rightarrow> nat \<Rightarrow> expr"
  subs :: "expr \<Rightarrow> expr \<Rightarrow> int \<Rightarrow> expr"

subsection \<open>The random generator\<close>

text \<open>\<^verbatim>\<open>random.randint(a, b)\<close>: an integer of the closed range, chosen by the raw draw.\<close>

definition randint :: "int \<Rightarrow> int \<Rightarrow> nat \<Rightarrow> int" where
  "randint a b u = a + int (u mod nat (b - a + 1))"

text \<open>
  \<^verbatim>\<open>np.random.binomial(n, p)\<close>: the number of successes among \<open>n\<close> trials, the
  \<open>i\<close>-th of which succeeds when its uniform draw is below \<open>p\<close>.
\<close>

definition np_binomial :: "int \<Rightarrow> real \<Rightarrow> (nat \<Rightarrow> real) \<Rightarrow> int" where
  "np_binomial n p coins = int (length (filter (\<lambda>i. coins i < p) [0..<nat n]))"

text \<open>
  \<^verbatim>\<open>np.random.dirichlet(np.ones(k))\<close>: a vector of \<open>k\<close> weights, the \<open>i\<close>-th
  read from the draws.
\<close>

definition dirichlet :: "int \<Rightarrow> (nat \<Rightarrow> real) \<Rightarrow> real list" where
  "dirichlet k weights = map weights [0..<nat k]"

text \<open>\<^verbatim>\<open>random.choice(seq)\<close> raises IndexError on an empty sequence.\<close>

definition choice :: "'a list \<Rightarrow> nat \<Rightarrow> error + 'a" where
  "choice xs u = (if xs = [] then Inl IndexError else Inr (xs ! (u mod length xs)))"

text \<open>\<^verbatim>\<open>xs[:k]\<close>: a negative bound counts from the end.\<close>

definition slice_to :: "'a list \<Rightarrow> int \<Rightarrow> 'a list" where
  "slice_to xs k = (if 0 \<le> k then take (nat k) xs else take (nat (int (length xs) + k)) xs)"

text \<open>\<^verbatim>\<open>int(n / 2)\<close> under true division: the quotient truncated towards zero.\<close>

definition int_half :: "int \<Rightarrow> int" where
  "int_half n = (if 0 \<le> n then n div 2 else - ((- n) div 2))"

section \<open>Sampling the roots of a polynomial\<close>

definition POLY_PROBABILITY_REPEATED_ROOT :: real where
  "POLY_PROBABILITY_REPEATED_ROOT = 2 / 10"

record roots_draws =
  rd_num_roots :: nat
  rd_binomial :: "nat \<Rightarrow> real"
  rd_dirichlet :: "nat \<Rightarrow> real"
  rd_random :: "nat \<Rightarrow> real"
  rd_number :: "nat \<Rightarrow> nat"
  rd_choice :: "nat \<Rightarrow> nat"

definition sr_num_roots :: "roots_draws \<Rightarrow> int" where
  "sr_num_roots d = randint 2 5 (rd_num_roots d)"

definition sr_num_repeated :: "real \<Rightarrow> roots_draws \<Rightarrow> int" where
  "sr_num_repeated entropy d =
     (let num_roots = sr_num_roots d;
          num_repeated = np_binomial (num_roots - 1) POLY_PROBABILITY_REPEATED_ROOT (rd_binomial d)
      in if entropy > 4 then min num_repeated (int_half num_roots) else num_repeated)"

definition sr_num_distinct :: "real \<Rightarrow> roots_draws \<Rightarrow> int" where
  "sr_num_distinct entropy d = sr_num_roots d - sr_num_repeated entropy d"

text \<open>The first loop: one root for each entropy share, rational with a small probability.\<close>

definition sr_distinct_roots :: "lib \<Rightarrow> real \<Rightarrow> roots_draws \<Rightarrow> rat list" where
  "sr_distinct_roots L entropy d =
     (let entropies = map (\<lambda>w. entropy * w) (dirichlet (sr_num_distinct entropy d) (rd_dirichlet d))
      in map (\<lambda>i. if rd_random d i < 1 / 10
                   then non_integer_rational L (entropies ! i) True (rd_number d i)
                   else number_integer L (entropies ! i) True (rd_number d i))
           [0..<length entropies])"

text \<open>The second loop: \<open>n\<close> more roots, each chosen among the first \<open>num_distinct\<close>.\<close>

fun sr_append_repeated :: "int \<Rightarrow> (nat \<Rightarrow> nat) \<Rightarrow> nat \<Rightarrow> nat \<Rightarrow> rat list \<Rightarrow> error + rat list" where
  "sr_append_repeated num_distinct draws j 0 roots = Inr roots"
| "sr_append_repeated num_distinct draws j (Suc n) roots =
     (case choice (slice_to roots num_distinct) (draws j) of
        Inl e \<Rightarrow> Inl e
      | Inr r \<Rightarrow> sr_append_repeated num_distinct draws (Suc j) n (roots @ [r]))"

definition sample_roots :: "lib \<Rightarrow> real \<Rightarrow> roots_draws \<Rightarrow> error + rat list" where
  "sample_roots L entropy d =
     sr_append_repeated (sr_num_distinct entropy d) (rd_choice d) 0
       (nat (sr_num_repeated entropy d)) (sr_distinct_roots L entropy d)"

section \<open>The coefficients of the polynomial with given roots\<close>

text \<open>
  \<^verbatim>\<open>sympy.Poly(sympy.prod([variable - root for root in roots])).all_coeffs()\<close>,
  reversed: the coefficients of the product of the linear factors, lowest power first.
\<close>

definition times_linear :: "rat \<Rightarrow> rat list \<Rightarrow> rat list" where
  "times_linear r p = map2 (\<lambda>a b. a - r * b) (0 # p) (p @ [0])"

definition expand_roots :: "rat list \<Rightarrow> rat list" where
  "expand_roots roots = foldr times_linear roots [1]"

definition denom :: "rat \<Rightarrow> int" where
  "denom c = snd (quotient_of c)"

definition sympy_lcm :: "int list \<Rightarrow> int" where
  "sympy_lcm ds = fold lcm ds 1"

text \<open>
  The loop \<^verbatim>\<open>while True: scale = ...; if scale != 0: break\<close>, over the scales
  drawn at the successive attempts. It has no exit but the break.
\<close>

partial_function (option) sample_scale :: "(nat \<Rightarrow> rat) \<Rightarrow> nat \<Rightarrow> rat option" where
  "sample_scale attempt k =
     (let scale = attempt k in if scale \<noteq> 0 then Some scale else sample_scale attempt (k + 1))"

text \<open>
  \<open>None\<close> is a call that never returns. An empty product is the number 1, of which
  \<^verbatim>\<open>sympy.Poly\<close> cannot make a polynomial.
\<close>

definition polynomial_coeffs_with_roots ::
  "lib \<Rightarrow> rat list \<Rightarrow> real \<Rightarrow> (nat \<Rightarrow> nat) \<Rightarrow> (error + rat list) option" where
  "polynomial_coeffs_with_roots L roots scale_entropy draws =
     (if roots = [] then Some (Inl GeneratorsNeeded)
      else let coeffs = expand_roots roots in
        if length coeffs \<noteq> length roots + 1 then Some (Inl AssertionError)
        else let l = sympy_lcm (map denom coeffs) in
          if scale_entropy > 0
          then (case sample_scale (\<lambda>k. integer_or_rational L scale_entropy True (draws k)) 0 of
                  None \<Rightarrow> None
                | Some scale \<Rightarrow> Some (Inr (map (\<lambda>coeff. coeff * scale * of_int l) coeffs)))
          else Some (Inr (map (\<lambda>coeff. coeff * 1 * of_int l) coeffs)))"

section \<open>polynomial\_roots\<close>

text \<open>\<^verbatim>\<open>xs[i]\<close> for a non-negative index raises IndexError out of range.\<close>

definition index :: "'a list \<Rightarrow> nat \<Rightarrow> error + 'a" where
  "index xs i = (if i < length xs then Inr (xs ! i) else Inl IndexError)"

record pr_draws =
  pd_roots :: roots_draws
  pd_scale :: "nat \<Rightarrow> nat"
  pd_ask :: nat
  pd_template :: nat

definition ask_templates :: "string list" where
  "ask_templates =
    [''Let {equality}. What is {variable}?'',
     ''Let {equality}. Calculate {variable}.'',
     ''Suppose {equality}. What is {variable}?'',
     ''Suppose {equality}. Calculate {variable}.'',
     ''What is {variable} in {equality}?'',
     ''Solve {equality} for {variable}.'',
     ''Find {variable} such that {equality}.'',
     ''Find {variable}, given that {equality}.'',
     ''Determine {variable} so that {equality}.'',
     ''Determine {variable}, given that {equality}.'',
     ''Solve {equality}.'']"

definition factor_templates :: "string list" where
  "factor_templates = [''Factor {expression}.'']"

text \<open>The branch that asks for the roots.\<close>

definition pr_ask :: "lib \<Rightarrow> context \<Rightarrow> entity \<Rightarrow> rat list \<Rightarrow> nat \<Rightarrow> error + returned" where
  "pr_ask L ctx polynomial_entity solutions u =
     (let ans = (if length solutions = 1 then Expr (Number (solutions ! 0))
                 else NumberList (map Number solutions))
      in case (case e_expression polynomial_entity of
                 Some expression \<Rightarrow>
                   (case index (e_polynomial_variables polynomial_entity) 0 of
                      Inl e \<Rightarrow> Inl e
                    | Inr variable \<Rightarrow> Inr (Eq expression (Number 0), variable, ctx))
               | None \<Rightarrow>
                   (case context_pop L ctx of
                      Inl e \<Rightarrow> Inl e
                    | Inr (name, ctx') \<Rightarrow>
                        Inr (Eq (handle_apply L (e_handle polynomial_entity) (Symbol name)) (Number 0),
                             Symbol name, ctx')))
         of Inl e \<Rightarrow> Inl e
          | Inr (equality, variable, ctx') \<Rightarrow>
              (case choice ask_templates u of
                 Inl e \<Rightarrow> Inl e
               | Inr template \<Rightarrow>
                   Inr (ReturnsProblem
                     \<lparr>question = example_question L ctx' template
                        [(''equality'', Expr equality), (''variable'', Expr variable)],
                      answer = ans\<rparr>)))"

text \<open>The branch that asks for the factored form.\<close>

definition pr_factor :: "lib \<Rightarrow> context \<Rightarrow> entity \<Rightarrow> rat list \<Rightarrow> nat \<Rightarrow> error + returned" where
  "pr_factor L ctx polynomial_entity coeffs u =
     (case (case e_expression polynomial_entity of
              Some expression \<Rightarrow>
                (case index (e_polynomial_variables polynomial_entity) 0 of
                   Inl e \<Rightarrow> Inl e
                 | Inr variable \<Rightarrow> Inr (expression, variable, ctx))
            | None \<Rightarrow>
                (case context_pop L ctx of
                   Inl e \<Rightarrow> Inl e
                 | Inr (name, ctx') \<Rightarrow>
                     Inr (handle_apply L (e_handle polynomial_entity) (Symbol name), Symbol name, ctx')))
      of Inl e \<Rightarrow> Inl e
       | Inr (expression, variable, ctx') \<Rightarrow>
           (let factored = factor L (coefficients_to_polynomial L coeffs variable)
            in case choice factor_templates u of
                 Inl e \<Rightarrow> Inl e
               | Inr template \<Rightarrow>
                   Inr (ReturnsProblem
                     \<lparr>question = example_question L ctx' template [(''expression'', Expr expression)],
                      answer = Expr factored\<rparr>)))"

text \<open>
  The roots, the sorted distinct solutions and the coefficients that a call computes
  before it chooses its branch.
\<close>

definition pr_scale_entropy :: "lib \<Rightarrow> sample_args \<Rightarrow> real" where
  "pr_scale_entropy L sample_args = min (fst (peel L sample_args) / 2) 1"

definition pr_roots :: "lib \<Rightarrow> sample_args \<Rightarrow> pr_draws \<Rightarrow> error + rat list" where
  "pr_roots L sample_args d =
     sample_roots L (fst (peel L sample_args) - pr_scale_entropy L sample_args) (pd_roots d)"

definition polynomial_roots ::
  "lib \<Rightarrow> rat option \<Rightarrow> sample_args \<Rightarrow> context option \<Rightarrow> pr_draws \<Rightarrow> (error + returned) option" where
  "polynomial_roots L value sample_args context d =
     (let ctx = (case context of None \<Rightarrow> new_context L | Some c \<Rightarrow> c);
          sample_args' = snd (peel L sample_args);
          scale_entropy = pr_scale_entropy L sample_args
      in case pr_roots L sample_args d of
           Inl e \<Rightarrow> Some (Inl e)
         | Inr roots \<Rightarrow>
             (let solutions = sort (remdups roots)
              in case polynomial_coeffs_with_roots L roots scale_entropy (pd_scale d) of
                   None \<Rightarrow> None
                 | Some (Inl e) \<Rightarrow> Some (Inl e)
                 | Some (Inr coeffs) \<Rightarrow>
                     (case context_sample L ctx sample_args' [Node ''Polynomial'' (map Number coeffs)] of
                        Inl e \<Rightarrow> Some (Inl e)
                      | Inr (sampled, ctx') \<Rightarrow>
                          (case sampled of
                             [polynomial_entity] \<Rightarrow>
                               (case choice [False, True] (pd_ask d) of
                                  Inl e \<Rightarrow> Some (Inl e)
                                | Inr ask \<Rightarrow>
                                    Some (if ask
                                          then pr_ask L ctx' polynomial_entity solutions (pd_template d)
                                          else pr_factor L ctx' polynomial_entity coeffs (pd_template d)))
                           | _ \<Rightarrow> Some (Inl ValueError)))))"

section \<open>Linear systems\<close>

record ls_draws =
  ld_dirichlet :: "nat \<Rightarrow> real"
  ld_number :: "nat \<Rightarrow> nat"
  ld_system :: "nat \<Rightarrow> nat"
  ld_template :: nat

definition sls_given :: "rat option \<Rightarrow> rat list" where
  "sls_given value = (case value of None \<Rightarrow> [] | Some v \<Rightarrow> [v])"

definition sls_extra_solutions_needed :: "int \<Rightarrow> rat option \<Rightarrow> int" where
  "sls_extra_solutions_needed degree value = degree - int (length (sls_given value))"

text \<open>The entropies of the extra solutions, after \<^verbatim>\<open>np.maximum(1, entropies)\<close>.\<close>

definition sls_entropies :: "real \<Rightarrow> int \<Rightarrow> (nat \<Rightarrow> real) \<Rightarrow> real list" where
  "sls_entropies entropy extra_solutions_needed weights =
     map (max 1) (map (\<lambda>w. (entropy / 4) * w) (dirichlet extra_solutions_needed weights))"

definition sls_solutions :: "lib \<Rightarrow> real \<Rightarrow> int \<Rightarrow> rat option \<Rightarrow> ls_draws \<Rightarrow> rat list" where
  "sls_solutions L entropy degree value d =
     (let extra_solutions_needed = sls_extra_solutions_needed degree value
      in if extra_solutions_needed > 0
         then (let entropies = sls_entropies entropy extra_solutions_needed (ld_dirichlet d)
               in sls_given value @
                  map (\<lambda>i. number_integer L (entropies ! i) True (ld_number d i)) [0..<length entropies])
         else sls_given value)"

text \<open>The entropy handed to the construction of the system, after \<^verbatim>\<open>max(1, entropy)\<close>.\<close>

definition sls_entropy :: "real \<Rightarrow> int \<Rightarrow> rat option \<Rightarrow> ls_draws \<Rightarrow> real" where
  "sls_entropy entropy degree value d =
     (let extra_solutions_needed = sls_extra_solutions_needed degree value
      in max 1 (if extra_solutions_needed > 0
                then entropy - sum_list (sls_entropies entropy extra_solutions_needed (ld_dirichlet d))
                else entropy))"

text \<open>\<^verbatim>\<open>[sympy.Symbol(context.pop()) for _ in range(degree)]\<close>\<close>

fun pop_variables :: "lib \<Rightarrow> context \<Rightarrow> nat \<Rightarrow> error + expr list \<times> context" where
  "pop_variables L ctx 0 = Inr ([], ctx)"
| "pop_variables L ctx (Suc n) =
     (case context_pop L ctx of
        Inl e \<Rightarrow> Inl e
      | Inr (name, ctx') \<Rightarrow>
          (case pop_variables L ctx' n of
             Inl e \<Rightarrow> Inl e
           | Inr (variables, ctx'') \<Rightarrow> Inr (Symbol name # variables, ctx'')))"

text \<open>
  The loop \<^verbatim>\<open>while True: equations = ...; if num_modules <= 1 or constants: break\<close>,
  over the systems constructed at the successive attempts. It has no exit but the break.
\<close>

partial_function (option) sls_retry ::
  "(nat \<Rightarrow> expr list) \<Rightarrow> (expr list \<Rightarrow> expr list) \<Rightarrow> int \<Rightarrow> nat \<Rightarrow> expr list option" where
  "sls_retry attempt constants_of modules k =
     (let equations = attempt k; constants = constants_of equations
      in if modules \<le> 1 \<or> constants \<noteq> [] then Some equations
         else sls_retry attempt constants_of modules (k + 1))"

fun join :: "string \<Rightarrow> string list \<Rightarrow> string" where
  "join sep [] = []"
| "join sep [x] = x"
| "join sep (x # y # ys) = x @ sep @ join sep (y # ys)"

definition solve_templates :: "string list" where
  "solve_templates = [''Solve {equations} for {variable}.'']"

text \<open>What follows the loop: the substitution of constants, then the problem or the entity.\<close>

definition sls_result ::
  "lib \<Rightarrow> bool \<Rightarrow> context \<Rightarrow> sample_args \<Rightarrow> expr list \<Rightarrow> rat list \<Rightarrow> nat \<Rightarrow> expr list
     \<Rightarrow> nat \<Rightarrow> error + returned" where
  "sls_result L is_question ctx sample_args variables solutions solution_index equations u =
     (case sample_by_replacing_constants L ctx sample_args equations of
        Inl e \<Rightarrow> Inl e
      | Inr (equations', ctx') \<Rightarrow>
          (case index variables solution_index of
             Inl e \<Rightarrow> Inl e
           | Inr variable \<Rightarrow>
               (case index solutions solution_index of
                  Inl e \<Rightarrow> Inl e
                | Inr ans \<Rightarrow>
                    (let equations_str = join '', '' (map (str L) equations')
                     in if is_question
                        then (case choice solve_templates u of
                                Inl e \<Rightarrow> Inl e
                              | Inr template \<Rightarrow>
                                  Inr (ReturnsProblem
                                    \<lparr>question = example_question L ctx' template
                                       [(''equations'', Str equations_str),
                                        (''variable'', Expr variable)],
                                     answer = Expr (Number ans)\<rparr>))
                        else Inr (ReturnsEntity
                               (Entity ctx' (Number ans) ''Suppose {equations}.''
                                  variable (Some equations_str) None []))))))"

definition solve_linear_system ::
  "lib \<Rightarrow> int \<Rightarrow> rat option \<Rightarrow> sample_args \<Rightarrow> context option \<Rightarrow> ls_draws \<Rightarrow> (error + returned) option" where
  "solve_linear_system L degree value sample_args context d =
     (let is_question = (context = None);
          ctx = (case context of None \<Rightarrow> new_context L | Some c \<Rightarrow> c);
          sample_args' = snd (peel L sample_args);
          solutions = sls_solutions L (fst (peel L sample_args)) degree value d;
          entropy = sls_entropy (fst (peel L sample_args)) degree value d
      in case pop_variables L ctx (nat degree) of
           Inl e \<Rightarrow> Some (Inl e)
         | Inr (variables, ctx1) \<Rightarrow>
             (let solution_index = 0
              in case sls_retry
                        (\<lambda>k. linear_system L variables solutions entropy solution_index (ld_system d k))
                        (number_constants L) (num_modules sample_args') 0 of
                   None \<Rightarrow> None
                 | Some equations \<Rightarrow>
                     Some (sls_result L is_question ctx1 sample_args' variables solutions
                             solution_index equations (ld_template d))))"

text \<open>
  The decorator \<^verbatim>\<open>composition.module(number.is_integer)\<close> of the two functions below
  is not among the source files; it is taken to attach the predicate and to leave the call
  as it is.
\<close>

definition solve_linear_1d ::
  "lib \<Rightarrow> rat option \<Rightarrow> sample_args \<Rightarrow> context option \<Rightarrow> ls_draws \<Rightarrow> (error + returned) option" where
  "solve_linear_1d L = solve_linear_system L 1"

definition solve_linear_2d ::
  "lib \<Rightarrow> rat option \<Rightarrow> sample_args \<Rightarrow> context option \<Rightarrow> ls_draws \<Rightarrow> (error + returned) option" where
  "solve_linear_2d L = solve_linear_system L 2"

section \<open>Polynomial sequences\<close>

record polynomial_sequence =
  ps_degree :: int
  ps_variable :: expr
  ps_sympy :: expr

record seq_draws =
  qd_uniform :: real
  qd_degree :: nat
  qd_polynomial :: nat
  qd_num_terms :: nat
  qd_template :: nat

text \<open>\<^verbatim>\<open>random.uniform(a, b)\<close>, from a draw of the unit interval.\<close>

definition uniform :: "real \<Rightarrow> real \<Rightarrow> real \<Rightarrow> real" where
  "uniform a b u = a + (b - a) * u"

text \<open>The constructor of \<^verbatim>\<open>_PolynomialSequence\<close>.\<close>

definition PolynomialSequence ::
  "lib \<Rightarrow> expr \<Rightarrow> real \<Rightarrow> int \<Rightarrow> int \<Rightarrow> seq_draws \<Rightarrow> polynomial_sequence" where
  "PolynomialSequence L variable entropy min_degree max_degree d =
     (let degree = randint min_degree max_degree (qd_degree d)
      in \<lparr>ps_degree = degree, ps_variable = variable,
          ps_sympy = sample_with_small_evaluation L variable degree (degree + 2) entropy
                       (qd_polynomial d)\<rparr>)"

definition min_num_terms :: "polynomial_sequence \<Rightarrow> int" where
  "min_num_terms sequence = ps_degree sequence + 2"

definition "term" :: "lib \<Rightarrow> polynomial_sequence \<Rightarrow> int \<Rightarrow> expr" where
  "term L sequence n = subs L (ps_sympy sequence) (ps_variable sequence) n"

definition next_templates :: "string list" where
  "next_templates =
    [''What is next in {sequence}?'',
     ''What comes next: {sequence}?'',
     ''What is the next term in {sequence}?'']"

definition nth_templates :: "string list" where
  "nth_templates = [''What is the {variable}'' @ [CHR 0x27] @ ''th term of {sequence}?'']"

text \<open>
  The sequence object and the sample of its terms that \<^verbatim>\<open>sequence_next_term\<close> and
  \<^verbatim>\<open>sequence_nth_term\<close> build from the variable they popped, by the same statements.
\<close>

definition seq_sequence ::
  "lib \<Rightarrow> real \<Rightarrow> real \<Rightarrow> expr \<Rightarrow> seq_draws \<Rightarrow> polynomial_sequence" where
  "seq_sequence L min_entropy max_entropy variable d =
     PolynomialSequence L variable (uniform min_entropy max_entropy (qd_uniform d)) 1 3 d"

definition seq_num_terms :: "polynomial_sequence \<Rightarrow> seq_draws \<Rightarrow> int" where
  "seq_num_terms sequence d =
     randint (min_num_terms sequence) (min_num_terms sequence + 3) (qd_num_terms d)"

definition seq_sample :: "lib \<Rightarrow> polynomial_sequence \<Rightarrow> int \<Rightarrow> expr list" where
  "seq_sample L sequence num_terms =
     map (\<lambda>n. term L sequence (int n + 1)) [0..<nat num_terms]"

definition sequence_next_term :: "lib \<Rightarrow> real \<Rightarrow> real \<Rightarrow> seq_draws \<Rightarrow> error + problem" where
  "sequence_next_term L min_entropy max_entropy d =
     (case context_pop L (new_context L) of
        Inl e \<Rightarrow> Inl e
      | Inr (name, ctx) \<Rightarrow>
          (let sequence = seq_sequence L min_entropy max_entropy (Symbol name) d;
               num_terms = seq_num_terms sequence d;
               sequence_sample = NumberList (seq_sample L sequence num_terms)
           in case choice next_templates (qd_template d) of
                Inl e \<Rightarrow> Inl e
              | Inr template \<Rightarrow>
                  Inr \<lparr>question = example_question L ctx template [(''sequence'', sequence_sample)],
                       answer = Expr (term L sequence (num_terms + 1))\<rparr>))"

definition sequence_nth_term :: "lib \<Rightarrow> real \<Rightarrow> real \<Rightarrow> seq_draws \<Rightarrow> error + problem" where
  "sequence_nth_term L min_entropy max_entropy d =
     (case context_pop L (new_context L) of
        Inl e \<Rightarrow> Inl e
      | Inr (name, ctx) \<Rightarrow>
          (let sequence = seq_sequence L min_entropy max_entropy (Symbol name) d;
               num_terms = seq_num_terms sequence d;
               sequence_sample = NumberList (seq_sample L sequence num_terms)
           in case choice nth_templates (qd_template d) of
                Inl e \<Rightarrow> Inl e
              | Inr template \<Rightarrow>
                  Inr \<lparr>question = example_question L ctx template
                         [(''variable'', Expr (Symbol name)), (''sequence'', sequence_sample)],
                       answer = Expr (ps_sympy sequence)\<rparr>))"

section \<open>Writing the generated problems to files\<close>

text \<open>
  \<^verbatim>\<open>generate_to_file.main\<close>. A path is the directory and the names joined to it.
  The files are the log of the files opened for writing, in the order of the calls of
  \<^verbatim>\<open>open\<close>, each with the content it was left with. The dictionaries
  \<^verbatim>\<open>generate.filtered_modules\<close> and \<^verbatim>\<open>generate.counts\<close> are parameters, the
  first one as the list of its items in iteration order. \<^verbatim>\<open>generate.sample_from_module\<close>
  is a parameter too: it gives the strings of the question and of the answer of the
  problem sampled by the \<open>n\<close>-th call of the run. Directories and the printed lines are
  left out.
\<close>

datatype path = Dir string | Join path string

datatype content = JsonList "(string \<times> string) list" | Written "string list"

record gen_state =
  dataset_list :: "(string \<times> string) list"
  files :: "(path \<times> content) list"
  samples :: nat

text \<open>The loop of the json branch: \<open>k\<close> problems appended to the one list.\<close>

fun json_loop :: "('m \<Rightarrow> nat \<Rightarrow> string \<times> string) \<Rightarrow> 'm \<Rightarrow> nat \<Rightarrow> gen_state \<Rightarrow> gen_state" where
  "json_loop sample_from_module m 0 st = st"
| "json_loop sample_from_module m (Suc k) st =
     json_loop sample_from_module m k
       (st\<lparr>dataset_list := dataset_list st @ [sample_from_module m (samples st)],
           samples := Suc (samples st)\<rparr>)"

text \<open>
  The loop of the jsonl branch: its first iteration samples a problem and then evaluates
  the name \<^verbatim>\<open>dataset_dict\<close>, which no statement of the module binds.
\<close>

fun jsonl_loop ::
  "('m \<Rightarrow> nat \<Rightarrow> string \<times> string) \<Rightarrow> 'm \<Rightarrow> nat \<Rightarrow> gen_state \<Rightarrow> error option \<times> gen_state" where
  "jsonl_loop sample_from_module m 0 st = (None, st)"
| "jsonl_loop sample_from_module m (Suc k) st = (Some NameError, st\<lparr>samples := Suc (samples st)\<rparr>)"

text \<open>\<^verbatim>\<open>text_file.write(s)\<close> on the file opened last.\<close>

definition write_last :: "string \<Rightarrow> (path \<times> content) list \<Rightarrow> (path \<times> content) list" where
  "write_last s fs =
     (case rev fs of
        [] \<Rightarrow> []
      | (p, c) # earlier \<Rightarrow>
          rev earlier @ [(p, (case c of Written chunks \<Rightarrow> Written (chunks @ [s]) | JsonList xs \<Rightarrow> c))])"

fun txt_loop :: "('m \<Rightarrow> nat \<Rightarrow> string \<times> string) \<Rightarrow> 'm \<Rightarrow> nat \<Rightarrow> gen_state \<Rightarrow> gen_state" where
  "txt_loop sample_from_module m 0 st = st"
| "txt_loop sample_from_module m (Suc k) st =
     (let (q, a) = sample_from_module m (samples st)
      in txt_loop sample_from_module m k
           (st\<lparr>files := write_last (a @ [CHR 0x0A]) (write_last (q @ [CHR 0x0A]) (files st)),
               samples := Suc (samples st)\<rparr>))"

text \<open>The body of the loop over the modules of a regime.\<close>

definition module_step ::
  "string \<Rightarrow> ('m \<Rightarrow> nat \<Rightarrow> string \<times> string) \<Rightarrow> path \<Rightarrow> int \<Rightarrow> string \<times> 'm \<Rightarrow> gen_state
     \<Rightarrow> error option \<times> gen_state" where
  "module_step save_format sample_from_module regime_dir per_module item st =
     (let (module_name, m) = item
      in if save_format = ''json''
         then (let path = Join regime_dir (module_name @ ''.json'');
                   st' = json_loop sample_from_module m (nat per_module) st
               in (None, st'\<lparr>files := files st' @ [(path, JsonList (dataset_list st'))]\<rparr>))
         else if save_format = ''jsonl''
         then (let path = Join regime_dir (module_name @ ''.jsonl'')
               in jsonl_loop sample_from_module m (nat per_module)
                    (st\<lparr>files := files st @ [(path, Written [])]\<rparr>))
         else if save_format = ''txt''
         then (let path = Join regime_dir (module_name @ ''.txt'')
               in (None, txt_loop sample_from_module m (nat per_module)
                           (st\<lparr>files := files st @ [(path, Written [])]\<rparr>)))
         else (Some ValueError, st))"

text \<open>A loop stops at the first exception.\<close>

fun modules_loop ::
  "string \<Rightarrow> ('m \<Rightarrow> nat \<Rightarrow> string \<times> string) \<Rightarrow> path \<Rightarrow> int \<Rightarrow> (string \<times> 'm) list \<Rightarrow> gen_state
     \<Rightarrow> error option \<times> gen_state" where
  "modules_loop save_format sample_from_module regime_dir per_module [] st = (None, st)"
| "modules_loop save_format sample_from_module regime_dir per_module (item # items) st =
     (case module_step save_format sample_from_module regime_dir per_module item st of
        (Some e, st') \<Rightarrow> (Some e, st')
      | (None, st') \<Rightarrow> modules_loop save_format sample_from_module regime_dir per_module items st')"

fun regimes_loop ::
  "string \<Rightarrow> ('m \<Rightarrow> nat \<Rightarrow> string \<times> string) \<Rightarrow> path \<Rightarrow> (string \<rightharpoonup> int)
     \<Rightarrow> (string \<times> (string \<times> 'm) list) list \<Rightarrow> gen_state \<Rightarrow> error option \<times> gen_state" where
  "regimes_loop save_format sample_from_module output_dir counts [] st = (None, st)"
| "regimes_loop save_format sample_from_module output_dir counts ((regime, flat_modules) # rest) st =
     (case counts regime of
        None \<Rightarrow> (Some KeyError, st)
      | Some per_module \<Rightarrow>
          (case modules_loop save_format sample_from_module (Join output_dir regime) per_module
                  flat_modules st of
             (Some e, st') \<Rightarrow> (Some e, st')
           | (None, st') \<Rightarrow> regimes_loop save_format sample_from_module output_dir counts rest st'))"

definition main ::
  "string \<Rightarrow> ('m \<Rightarrow> nat \<Rightarrow> string \<times> string) \<Rightarrow> string \<Rightarrow> (string \<rightharpoonup> int)
     \<Rightarrow> (string \<times> (string \<times> 'm) list) list \<Rightarrow> error option \<times> gen_state" where
  "main save_format sample_from_module output_dir counts filtered_modules =
     regimes_loop save_format sample_from_module (Dir output_dir) counts filtered_modules
       \<lparr>dataset_list = [], files = [], samples = 0\<rparr>"

text \<open>
  The modules in the order the loops reach them, each with the directory of its regime,
  its name, its count and its module; the problems that a run samples for a list of them,
  the first call being the \<open>n\<close>-th; and the json files that a run writes for them when the
  one list holds \<open>acc\<close> before.
\<close>

record 'm job =
  j_dir :: path
  j_name :: string
  j_count :: nat
  j_module :: 'm

definition regime_jobs :: "path \<Rightarrow> int \<Rightarrow> (string \<times> 'm) list \<Rightarrow> 'm job list" where
  "regime_jobs dir per_module flat_modules =
     map (\<lambda>(module_name, m).
           \<lparr>j_dir = dir, j_name = module_name, j_count = nat per_module, j_module = m\<rparr>)
         flat_modules"

definition jobs ::
  "string \<Rightarrow> (string \<rightharpoonup> int) \<Rightarrow> (string \<times> (string \<times> 'm) list) list \<Rightarrow> 'm job list" where
  "jobs output_dir counts filtered_modules =
     concat (map (\<lambda>(regime, flat_modules).
               regime_jobs (Join (Dir output_dir) regime) (the (counts regime)) flat_modules)
             filtered_modules)"



text \<open>The file that the jsonl branch leaves for a module: opened, nothing written.\<close>

definition jsonl_file :: "'m job \<Rightarrow> path \<times> content" where
  "jsonl_file j = (Join (j_dir j) (j_name j @ ''.jsonl''), Written [])"

section \<open>Collaborators and draws for concrete runs\<close>

text \<open>
  One instance of the collaborators, used where a statement is evaluated on a concrete
  call: the samplers return the raw draw, a context hands out the names of its pool in
  order, the constants of an expression are its numbers, and a system is the equation
  \<open>x = -x\<close> on the draw \<open>0\<close> and \<open>x + 2 = s + 2\<close> otherwise.
\<close>

fun numbers_of :: "expr \<Rightarrow> expr list" where
  "numbers_of (Number r) = [Number r]"
| "numbers_of (Symbol x) = []"
| "numbers_of (Eq a b) = numbers_of a @ numbers_of b"
| "numbers_of (Node f args) = concat (map numbers_of args)"

definition demo_lib :: lib where
  "demo_lib =
    \<lparr>peel = (\<lambda>a. (sa_entropy a, a)),
     number_integer = (\<lambda>e s u. of_nat u),
     non_integer_rational = (\<lambda>e s u. of_nat u + 1 / 2),
     integer_or_rational = (\<lambda>e s u. of_nat u),
     new_context = Context [''a'', ''b'', ''c''] [],
     context_pop = (\<lambda>c. case pool c of [] \<Rightarrow> Inl PoolExhausted
                         | name # names \<Rightarrow> Inr (name, Context names (entities c))),
     context_sample = (\<lambda>c a specs. Inr (map (\<lambda>e. Entity c e [] (Symbol ''f'') None None []) specs, c)),
     sample_by_replacing_constants = (\<lambda>c a equations. Inr (equations, c)),
     linear_system = (\<lambda>variables solutions e i u.
        if u = 0 then [Eq (variables ! i) (Node ''-'' [variables ! i])]
        else [Eq (Node ''+'' [variables ! i, Number 2]) (Number (solutions ! i + 2))]),
     number_constants = (\<lambda>equations. concat (map numbers_of equations)),
     coefficients_to_polynomial = (\<lambda>coeffs variable. Node ''poly'' (variable # map Number coeffs)),
     factor = (\<lambda>e. Node ''factor'' [e]),
     handle_apply = (\<lambda>h variable. Node ''apply'' [h, variable]),
     str = (\<lambda>e. ''equation''),
     example_question = (\<lambda>c template slots. template),
     sample_with_small_evaluation = (\<lambda>variable degree max_abs_input e u. Node ''p'' [variable]),
     subs = (\<lambda>p variable n. Node ''subs'' [p, variable, Number (of_int n)])\<rparr>"

definition demo_roots_draws :: roots_draws where
  "demo_roots_draws =
    \<lparr>rd_num_roots = 2, rd_binomial = (\<lambda>i. 0), rd_dirichlet = (\<lambda>i. 1 / 2),
     rd_random = (\<lambda>i. 1 / 2), rd_number = (\<lambda>i. i + 3), rd_choice = (\<lambda>j. j)\<rparr>"

definition demo_context :: "context" where
  "demo_context = Context [''x'', ''y''] []"

definition demo_pure_args :: sample_args where
  "demo_pure_args = \<lparr>num_modules = 1, sa_entropy = 2\<rparr>"

definition demo_composed_args :: sample_args where
  "demo_composed_args = \<lparr>num_modules = 2, sa_entropy = 2\<rparr>"

definition demo_ls_draws :: ls_draws where
  "demo_ls_draws =
    \<lparr>ld_dirichlet = (\<lambda>i. 1 / 2), ld_number = (\<lambda>i. i + 3), ld_system = (\<lambda>k. k), ld_template = 0\<rparr>"

definition demo_ls_draws_stuck :: ls_draws where
  "demo_ls_draws_stuck =
    \<lparr>ld_dirichlet = (\<lambda>i. 1 / 2), ld_number = (\<lambda>i. i + 3), ld_system = (\<lambda>k. 0), ld_template = 0\<rparr>"

definition demo_poly_args :: sample_args where
  "demo_poly_args = \<lparr>num_modules = 1, sa_entropy = 6\<rparr>"

definition demo_pr_draws :: pr_draws where
  "demo_pr_draws =
    \<lparr>pd_roots = demo_roots_draws, pd_scale = (\<lambda>k. 3 * k), pd_ask = 1, pd_template = 5\<rparr>"

definition demo_pr_draws_factor :: pr_draws where
  "demo_pr_draws_factor =
    \<lparr>pd_roots = demo_roots_draws, pd_scale = (\<lambda>k. 3 * k), pd_ask = 0, pd_template = 0\<rparr>"

definition demo_seq_draws :: seq_draws where
  "demo_seq_draws =
    \<lparr>qd_uniform = 1 / 2, qd_degree = 0, qd_polynomial = 7, qd_num_terms = 0, qd_template = 0\<rparr>"

text \<open>Two regimes of one module each, the first with a count of 0; and a sampler.\<close>

definition demo_modules :: "(string \<times> (string \<times> nat) list) list" where
  "demo_modules = [(''train-easy'', [(''algebra__linear_1d'', 0)]),
                   (''interpolate'', [(''algebra__linear_1d'', 1)])]"

definition demo_counts :: "string \<rightharpoonup> int" where
  "demo_counts = [''train-easy'' \<mapsto> 0, ''interpolate'' \<mapsto> 2]"

definition demo_counts_zero :: "string \<rightharpoonup> int" where
  "demo_counts_zero = [''train-easy'' \<mapsto> 0, ''interpolate'' \<mapsto> 0]"

definition demo_counts_positive :: "string \<rightharpoonup> int" where
  "demo_counts_positive = [''train-easy'' \<mapsto> 1, ''interpolate'' \<mapsto> 2]"

definition demo_sampler :: "nat \<Rightarrow> nat \<Rightarrow> string \<times> string" where
  "demo_sampler m n = (if n = 0 then (''q0'', ''a0'') else if n = 1 then (''q1'', ''a1'')
                      else (''q2'', ''a2''))"

section \<open>The number of sampled roots\<close>

lemma randint_range: "a \<le> b \<Longrightarrow> a \<le> randint a b u \<and> randint a b u \<le> b"
proof -
  assume ab: "a \<le> b"
  then have pos: "0 < nat (b - a + 1)" by simp
  have "u mod nat (b - a + 1) < nat (b - a + 1)" using pos by (rule mod_less_divisor)
  then have "int (u mod nat (b - a + 1)) < b - a + 1" using ab by linarith
  then show ?thesis by (simp add: randint_def)
qed

lemma np_binomial_range: "0 \<le> np_binomial n p coins \<and> np_binomial n p coins \<le> max 0 n"
proof -
  have "length (filter (\<lambda>i. coins i < p) [0..<nat n]) \<le> length [0..<nat n]"
    by (rule length_filter_le)
  then show ?thesis by (simp add: np_binomial_def)
qed

lemma sr_append_repeated_ok:
  "0 < k \<Longrightarrow> nat k \<le> length roots \<Longrightarrow>
   \<exists>rs. sr_append_repeated k draws j n roots = Inr (roots @ rs) \<and> length rs = n
        \<and> set rs \<subseteq> set (take (nat k) roots)"
proof (induction n arbitrary: roots j)
  case 0
  then show ?case by simp
next
  case (Suc n)
  let ?s = "slice_to roots k"
  have s: "?s = take (nat k) roots" using Suc.prems by (simp add: slice_to_def)
  have ne: "?s \<noteq> []" using Suc.prems by (auto simp: s)
  define r where "r = ?s ! (draws j mod length ?s)"
  have c: "choice ?s (draws j) = Inr r" using ne by (simp add: choice_def r_def)
  have rin: "r \<in> set (take (nat k) roots)"
    unfolding r_def using ne s by (metis length_greater_0_conv mod_less_divisor nth_mem)
  have "nat k \<le> length (roots @ [r])" using Suc.prems by simp
  from Suc.IH [OF Suc.prems(1) this, of "Suc j"]
  obtain rs where rs: "sr_append_repeated k draws (Suc j) n (roots @ [r]) = Inr ((roots @ [r]) @ rs)"
    "length rs = n" "set rs \<subseteq> set (take (nat k) (roots @ [r]))" by blast
  have "take (nat k) (roots @ [r]) = take (nat k) roots" using Suc.prems by simp
  with rs rin c show ?case
    by (intro exI [of _ "r # rs"]) simp
qed

lemma sr_num_roots_range: "2 \<le> sr_num_roots d \<and> sr_num_roots d \<le> 5"
  unfolding sr_num_roots_def by (rule randint_range) simp

lemma sr_num_repeated_range:
  "0 \<le> sr_num_repeated entropy d \<and> sr_num_repeated entropy d \<le> sr_num_roots d - 1"
  using sr_num_roots_range [of d]
    np_binomial_range [of "sr_num_roots d - 1" POLY_PROBABILITY_REPEATED_ROOT "rd_binomial d"]
  by (auto simp: sr_num_repeated_def Let_def int_half_def)

lemma sr_num_repeated_cap:
  "4 < entropy \<Longrightarrow> sr_num_repeated entropy d \<le> sr_num_roots d div 2"
  using sr_num_roots_range [of d]
  by (simp add: sr_num_repeated_def Let_def int_half_def)

lemma length_sr_distinct_roots:
  "length (sr_distinct_roots L entropy d) = nat (sr_num_distinct entropy d)"
  by (simp add: sr_distinct_roots_def Let_def dirichlet_def)

text \<open>
  Claim C4. A call of \<open>sample_roots\<close> never fails. It returns the roots of the first loop
  followed by the repeated ones, between 2 and 5 roots in all; every repeated root is one
  of the roots of the first loop; and when the entropy is above 4, at most half of the
  roots (rounded down) are repeated ones.
\<close>

theorem sample_roots_count:
  "\<exists>rs. sample_roots L entropy d = Inr (sr_distinct_roots L entropy d @ rs)
      \<and> int (length (sr_distinct_roots L entropy d @ rs)) = sr_num_roots d
      \<and> 2 \<le> sr_num_roots d \<and> sr_num_roots d \<le> 5
      \<and> int (length rs) = sr_num_repeated entropy d
      \<and> set rs \<subseteq> set (sr_distinct_roots L entropy d)
      \<and> (4 < entropy \<longrightarrow> int (length rs) \<le> sr_num_roots d div 2)"
proof -
  let ?ds = "sr_distinct_roots L entropy d"
  let ?k = "sr_num_distinct entropy d"
  have rep: "0 \<le> sr_num_repeated entropy d" "sr_num_repeated entropy d \<le> sr_num_roots d - 1"
    using sr_num_repeated_range [of entropy d] by simp_all
  have k: "0 < ?k" using rep by (simp add: sr_num_distinct_def)
  have len: "length ?ds = nat ?k" by (rule length_sr_distinct_roots)
  then have "nat ?k \<le> length ?ds" by simp
  from sr_append_repeated_ok [OF k this, of "rd_choice d" 0 "nat (sr_num_repeated entropy d)"]
  obtain rs where rs: "sample_roots L entropy d = Inr (?ds @ rs)"
      "length rs = nat (sr_num_repeated entropy d)" "set rs \<subseteq> set (take (nat ?k) ?ds)"
    unfolding sample_roots_def by blast
  have sub: "set rs \<subseteq> set ?ds" using rs(3) len by simp
  have lr: "int (length rs) = sr_num_repeated entropy d" using rs(2) rep by simp
  have tot: "int (length (?ds @ rs)) = sr_num_roots d"
    using len lr k by (simp add: sr_num_distinct_def)
  show ?thesis
    using rs(1) sub lr tot sr_num_roots_range [of d] sr_num_repeated_cap [of entropy d]
    by (intro exI [of _ rs]) simp
qed

lemma demo_rd:
  "rd_num_roots demo_roots_draws = 2"
  "rd_binomial demo_roots_draws = (\<lambda>i. 0)"
  "rd_dirichlet demo_roots_draws = (\<lambda>i. 1 / 2)"
  "rd_random demo_roots_draws = (\<lambda>i. 1 / 2)"
  "rd_number demo_roots_draws = (\<lambda>i. i + 3)"
  "rd_choice demo_roots_draws = (\<lambda>j. j)"
  by (simp_all add: demo_roots_draws_def)

lemma demo_samplers:
  "number_integer demo_lib = (\<lambda>e s u. of_nat u)"
  "non_integer_rational demo_lib = (\<lambda>e s u. of_nat u + 1 / 2)"
  "integer_or_rational demo_lib = (\<lambda>e s u. of_nat u)"
  by (simp_all add: demo_lib_def)

lemma demo_num_roots: "sr_num_roots demo_roots_draws = 4"
  by (simp add: sr_num_roots_def randint_def demo_rd)

lemma demo_num_repeated: "sr_num_repeated 5 demo_roots_draws = 2"
  by (simp add: sr_num_repeated_def demo_num_roots np_binomial_def int_half_def
      POLY_PROBABILITY_REPEATED_ROOT_def demo_rd eval_nat_numeral)

lemma demo_distinct: "sr_distinct_roots demo_lib 5 demo_roots_draws = [3, 4]"
  by (simp add: sr_distinct_roots_def sr_num_distinct_def demo_num_roots demo_num_repeated
      dirichlet_def demo_rd demo_samplers eval_nat_numeral)

lemma demo_sample_roots: "sample_roots demo_lib 5 demo_roots_draws = Inr [3, 4, 3, 4]"
  by (simp add: sample_roots_def sr_num_distinct_def demo_num_roots demo_num_repeated demo_distinct
      choice_def slice_to_def demo_rd eval_nat_numeral)

theorem sample_roots_count_witness:
  "(4::real) < 5 \<and> sample_roots demo_lib 5 demo_roots_draws = Inr [3, 4, 3, 4]
   \<and> (\<exists>rs. sample_roots demo_lib 5 demo_roots_draws = Inr (sr_distinct_roots demo_lib 5 demo_roots_draws @ rs)
         \<and> int (length rs) \<le> sr_num_roots demo_roots_draws div 2)"
proof -
  have h: "(4::real) < 5" by simp
  from sample_roots_count [of demo_lib 5 demo_roots_draws] h
  have "\<exists>rs. sample_roots demo_lib 5 demo_roots_draws = Inr (sr_distinct_roots demo_lib 5 demo_roots_draws @ rs)
         \<and> int (length rs) \<le> sr_num_roots demo_roots_draws div 2"
    by blast
  with h demo_sample_roots show ?thesis by blast
qed


section \<open>The scale of the coefficients\<close>

lemma length_times_linear: "length (times_linear r p) = length p + 1"
  by (simp add: times_linear_def)

lemma length_expand_roots: "length (expand_roots roots) = length roots + 1"
  by (induction roots) (simp_all add: expand_roots_def length_times_linear)

lemma denom_pos: "0 < denom c"
  unfolding denom_def by (cases "quotient_of c") (simp add: quotient_of_denom_pos)

lemma fold_lcm_pos: "(\<forall>d\<in>set ds. 0 < d) \<Longrightarrow> 0 < (a::int) \<Longrightarrow> 0 < fold lcm ds a"
proof (induction ds arbitrary: a)
  case Nil
  then show ?case by simp
next
  case (Cons d ds)
  have "0 < lcm d a" using Cons.prems by (simp add: lcm_pos_int)
  with Cons show ?case by simp
qed

lemma sympy_lcm_denoms_pos: "0 < sympy_lcm (map denom cs)"
  unfolding sympy_lcm_def by (rule fold_lcm_pos) (simp_all add: denom_pos)

lemma sample_scale_found:
  "attempt (k + n) \<noteq> 0 \<Longrightarrow> (\<forall>m<n. attempt (k + m) = 0) \<Longrightarrow>
   sample_scale attempt k = Some (attempt (k + n))"
proof (induction n arbitrary: k)
  case 0
  then show ?case by (subst sample_scale.simps) simp
next
  case (Suc n)
  have z: "attempt k = 0" using Suc.prems(2) [rule_format, of 0] by simp
  have "sample_scale attempt (k + 1) = Some (attempt (k + 1 + n))"
  proof (rule Suc.IH)
    show "attempt (k + 1 + n) \<noteq> 0" using Suc.prems(1) by simp
    show "\<forall>m<n. attempt (k + 1 + m) = 0"
    proof (intro allI impI)
      fix m assume "m < n"
      then have "Suc m < Suc n" by simp
      from Suc.prems(2) [rule_format, OF this] show "attempt (k + 1 + m) = 0" by simp
    qed
  qed
  with z show ?case by (subst sample_scale.simps) simp
qed

lemma sample_scale_Some:
  assumes "sample_scale attempt k = Some s"
  shows "\<exists>n. s = attempt (k + n) \<and> s \<noteq> 0 \<and> (\<forall>m<n. attempt (k + m) = 0)"
proof (rule sample_scale.raw_induct
    [where P = "\<lambda>attempt k s. \<exists>n. s = attempt (k + n) \<and> s \<noteq> 0 \<and> (\<forall>m<n. attempt (k + m) = 0)",
     OF _ assms])
  fix f :: "(nat \<Rightarrow> rat) \<Rightarrow> nat \<Rightarrow> rat option" and attempt k s
  assume IH: "\<And>attempt k s. f attempt k = Some s \<Longrightarrow>
      \<exists>n. s = attempt (k + n) \<and> s \<noteq> 0 \<and> (\<forall>m<n. attempt (k + m) = 0)"
  assume step: "(let scale = attempt k in if scale \<noteq> 0 then Some scale else f attempt (k + 1)) = Some s"
  show "\<exists>n. s = attempt (k + n) \<and> s \<noteq> 0 \<and> (\<forall>m<n. attempt (k + m) = 0)"
  proof (cases "attempt k = 0")
    case False
    with step have "s = attempt k" by (simp add: Let_def)
    with False have "s = attempt (k + 0) \<and> s \<noteq> 0 \<and> (\<forall>m<0. attempt (k + m) = 0)" by auto
    then show ?thesis by blast
  next
    case True
    with step have "f attempt (k + 1) = Some s" by (simp add: Let_def)
    from IH [OF this] obtain n where n: "s = attempt (k + 1 + n)" "s \<noteq> 0"
      "\<forall>m<n. attempt (k + 1 + m) = 0" by blast
    have "\<forall>m<Suc n. attempt (k + m) = 0"
    proof (intro allI impI)
      fix m assume "m < Suc n"
      show "attempt (k + m) = 0"
      proof (cases m)
        case 0 with True show ?thesis by simp
      next
        case (Suc m')
        with \<open>m < Suc n\<close> n(3) [rule_format, of m'] show ?thesis by simp
      qed
    qed
    with n(1,2) have "s = attempt (k + Suc n) \<and> s \<noteq> 0 \<and> (\<forall>m<Suc n. attempt (k + m) = 0)"
      by simp
    then show ?thesis by blast
  qed
qed

lemma sample_scale_never:
  "(\<forall>n. attempt n = 0) \<Longrightarrow> sample_scale attempt k = None"
proof (rule ccontr)
  assume all: "\<forall>n. attempt n = 0" and "sample_scale attempt k \<noteq> None"
  then obtain s where "sample_scale attempt k = Some s" by auto
  from sample_scale_Some [OF this] all show False by auto
qed

text \<open>
  Claim C7. For a non-empty list of roots, \<open>polynomial_coeffs_with_roots\<close> raises nothing.
  When it returns, the coefficients are those of the expanded product of the linear
  factors, each multiplied by the scale and by the least common multiple of the
  denominators, both different from zero: the scale is 1 when the scale entropy is not
  positive, and the first draw different from zero otherwise. It does not return only
  when the scale entropy is positive and every draw is zero.
\<close>

theorem polynomial_coeffs_with_roots_scale:
  assumes "roots \<noteq> []"
  shows "0 < sympy_lcm (map denom (expand_roots roots)) \<and>
    (case polynomial_coeffs_with_roots L roots scale_entropy draws of
       None \<Rightarrow> 0 < scale_entropy \<and> (\<forall>k. integer_or_rational L scale_entropy True (draws k) = 0)
     | Some (Inl e) \<Rightarrow> False
     | Some (Inr coeffs) \<Rightarrow>
         (\<exists>scale. scale \<noteq> 0
            \<and> (if 0 < scale_entropy
                then (\<exists>n. scale = integer_or_rational L scale_entropy True (draws n)
                        \<and> (\<forall>m<n. integer_or_rational L scale_entropy True (draws m) = 0))
                else scale = 1)
            \<and> coeffs = map (\<lambda>coeff. coeff * scale * of_int (sympy_lcm (map denom (expand_roots roots))))
                         (expand_roots roots)))"
proof -
  let ?attempt = "\<lambda>k. integer_or_rational L scale_entropy True (draws k)"
  let ?l = "sympy_lcm (map denom (expand_roots roots))"
  have l: "0 < ?l" by (rule sympy_lcm_denoms_pos)
  have len: "length (expand_roots roots) = length roots + 1" by (rule length_expand_roots)
  show ?thesis
  proof (cases "0 < scale_entropy")
    case False
    then have "polynomial_coeffs_with_roots L roots scale_entropy draws =
        Some (Inr (map (\<lambda>coeff. coeff * 1 * of_int ?l) (expand_roots roots)))"
      using assms len by (simp add: polynomial_coeffs_with_roots_def Let_def)
    with False l show ?thesis by simp
  next
    case True
    show ?thesis
    proof (cases "sample_scale ?attempt 0")
      case None
      have "\<forall>k. ?attempt k = 0"
      proof (rule ccontr)
        assume "\<not> (\<forall>k. ?attempt k = 0)"
        then have ex: "\<exists>k. ?attempt k \<noteq> 0" by blast
        define n where "n = (LEAST k. ?attempt k \<noteq> 0)"
        have n1: "?attempt n \<noteq> 0" unfolding n_def using ex by (rule LeastI_ex)
        have n2: "\<forall>m<n. ?attempt m = 0"
          unfolding n_def using not_less_Least by blast
        from sample_scale_found [of ?attempt 0 n] n1 n2
        have "sample_scale ?attempt 0 = Some (?attempt n)" by simp
        with None show False by simp
      qed
      moreover have "polynomial_coeffs_with_roots L roots scale_entropy draws = None"
        using True None assms len by (simp add: polynomial_coeffs_with_roots_def Let_def)
      ultimately show ?thesis using True l by simp
    next
      case (Some scale)
      from sample_scale_Some [OF Some]
      obtain n where n: "scale = ?attempt n" "scale \<noteq> 0" "\<forall>m<n. ?attempt m = 0" by auto
      have "polynomial_coeffs_with_roots L roots scale_entropy draws =
          Some (Inr (map (\<lambda>coeff. coeff * scale * of_int ?l) (expand_roots roots)))"
        using True Some assms len by (simp add: polynomial_coeffs_with_roots_def Let_def)
      moreover have "\<exists>n. scale = ?attempt n \<and> (\<forall>m<n. ?attempt m = 0)" using n by blast
      ultimately show ?thesis using True l n(2) by auto
    qed
  qed
qed

lemma demo_expand: "expand_roots [2, 2, - 3] = [12, - 8, - 1, 1]"
  by (simp add: expand_roots_def times_linear_def)

lemma demo_lcm: "sympy_lcm (map denom (expand_roots [2, 2, - 3])) = 1"
  by code_simp

lemma demo_scale:
  "sample_scale (\<lambda>k. integer_or_rational demo_lib 1 True (3 * k)) 0 = Some 3"
  apply (subst sample_scale.simps)
  apply (simp add: demo_samplers)
  apply (subst sample_scale.simps)
  apply (simp add: demo_samplers)
  done

lemma demo_coeffs:
  "polynomial_coeffs_with_roots demo_lib [2, 2, - 3] 1 (\<lambda>k. 3 * k) = Some (Inr [36, - 24, - 3, 3])"
  unfolding polynomial_coeffs_with_roots_def Let_def demo_lcm demo_scale
  by (simp add: demo_expand)

theorem polynomial_coeffs_with_roots_scale_witness:
  "[2, 2, - 3] \<noteq> ([] :: rat list)
   \<and> polynomial_coeffs_with_roots demo_lib [2, 2, - 3] 1 (\<lambda>k. 3 * k) = Some (Inr [36, - 24, - 3, 3])
   \<and> (\<exists>scale. scale \<noteq> 0 \<and> [36, - 24, - 3, 3] =
        map (\<lambda>coeff. coeff * scale * of_int (sympy_lcm (map denom (expand_roots [2, 2, - 3]))))
          (expand_roots [2, 2, - 3]))"
proof -
  have h: "[2, 2, - 3] \<noteq> ([] :: rat list)" by simp
  from polynomial_coeffs_with_roots_scale
    [OF h, where L = demo_lib and scale_entropy = 1 and draws = "\<lambda>k. 3 * k"]
  have "\<exists>scale. scale \<noteq> 0 \<and> [36, - 24, - 3, 3] =
        map (\<lambda>coeff. coeff * scale * of_int (sympy_lcm (map denom (expand_roots [2, 2, - 3]))))
          (expand_roots [2, 2, - 3])"
    unfolding demo_coeffs by auto
  with h demo_coeffs show ?thesis by blast
qed


section \<open>Linear systems: the result and the retry loop\<close>

lemma sls_retry_found:
  "modules \<le> 1 \<or> constants_of (attempt (k + n)) \<noteq> [] \<Longrightarrow>
   (\<forall>m<n. 1 < modules \<and> constants_of (attempt (k + m)) = []) \<Longrightarrow>
   sls_retry attempt constants_of modules k = Some (attempt (k + n))"
proof (induction n arbitrary: k)
  case 0
  then show ?case by (subst sls_retry.simps) (auto simp: Let_def)
next
  case (Suc n)
  have z: "1 < modules \<and> constants_of (attempt k) = []"
    using Suc.prems(2) [rule_format, of 0] by simp
  have "sls_retry attempt constants_of modules (k + 1) = Some (attempt (k + 1 + n))"
  proof (rule Suc.IH)
    show "modules \<le> 1 \<or> constants_of (attempt (k + 1 + n)) \<noteq> []" using Suc.prems(1) by simp
    show "\<forall>m<n. 1 < modules \<and> constants_of (attempt (k + 1 + m)) = []"
    proof (intro allI impI)
      fix m assume "m < n"
      then have "Suc m < Suc n" by simp
      from Suc.prems(2) [rule_format, OF this]
      show "1 < modules \<and> constants_of (attempt (k + 1 + m)) = []" by simp
    qed
  qed
  with z show ?case by (subst sls_retry.simps) (simp add: Let_def)
qed

lemma sls_retry_Some:
  assumes "sls_retry attempt constants_of modules k = Some equations"
  shows "\<exists>n. equations = attempt (k + n) \<and> (modules \<le> 1 \<or> constants_of equations \<noteq> [])
           \<and> (\<forall>m<n. 1 < modules \<and> constants_of (attempt (k + m)) = [])"
proof (rule sls_retry.raw_induct
    [where P = "\<lambda>attempt constants_of modules k equations.
       \<exists>n. equations = attempt (k + n) \<and> (modules \<le> 1 \<or> constants_of equations \<noteq> [])
           \<and> (\<forall>m<n. 1 < modules \<and> constants_of (attempt (k + m)) = [])",
     OF _ assms])
  fix f :: "(nat \<Rightarrow> expr list) \<Rightarrow> (expr list \<Rightarrow> expr list) \<Rightarrow> int \<Rightarrow> nat \<Rightarrow> expr list option"
    and attempt constants_of modules k equations
  assume IH: "\<And>attempt constants_of modules k equations.
      f attempt constants_of modules k = Some equations \<Longrightarrow>
      \<exists>n. equations = attempt (k + n) \<and> (modules \<le> 1 \<or> constants_of equations \<noteq> [])
           \<and> (\<forall>m<n. 1 < modules \<and> constants_of (attempt (k + m)) = [])"
  assume step: "(let equations = attempt k; constants = constants_of equations
      in if modules \<le> 1 \<or> constants \<noteq> [] then Some equations
         else f attempt constants_of modules (k + 1)) = Some equations"
  show "\<exists>n. equations = attempt (k + n) \<and> (modules \<le> 1 \<or> constants_of equations \<noteq> [])
           \<and> (\<forall>m<n. 1 < modules \<and> constants_of (attempt (k + m)) = [])"
  proof (cases "modules \<le> 1 \<or> constants_of (attempt k) \<noteq> []")
    case True
    with step have "equations = attempt k" by (auto simp: Let_def)
    with True have "equations = attempt (k + 0) \<and> (modules \<le> 1 \<or> constants_of equations \<noteq> [])
           \<and> (\<forall>m<0. 1 < modules \<and> constants_of (attempt (k + m)) = [])" by auto
    then show ?thesis by blast
  next
    case False
    with step have "f attempt constants_of modules (k + 1) = Some equations"
      by (simp add: Let_def)
    from IH [OF this] obtain n where n: "equations = attempt (k + 1 + n)"
      "modules \<le> 1 \<or> constants_of equations \<noteq> []"
      "\<forall>m<n. 1 < modules \<and> constants_of (attempt (k + 1 + m)) = []" by blast
    have "\<forall>m<Suc n. 1 < modules \<and> constants_of (attempt (k + m)) = []"
    proof (intro allI impI)
      fix m assume "m < Suc n"
      show "1 < modules \<and> constants_of (attempt (k + m)) = []"
      proof (cases m)
        case 0 with False show ?thesis by simp
      next
        case (Suc m')
        with \<open>m < Suc n\<close> n(3) [rule_format, of m'] show ?thesis by simp
      qed
    qed
    with n(1,2) have "equations = attempt (k + Suc n)
        \<and> (modules \<le> 1 \<or> constants_of equations \<noteq> [])
        \<and> (\<forall>m<Suc n. 1 < modules \<and> constants_of (attempt (k + m)) = [])" by simp
    then show ?thesis by blast
  qed
qed

lemma sls_retry_never:
  assumes "1 < modules" and "\<forall>n. constants_of (attempt n) = []"
  shows "sls_retry attempt constants_of modules k = None"
proof (rule ccontr)
  assume "sls_retry attempt constants_of modules k \<noteq> None"
  then obtain equations where "sls_retry attempt constants_of modules k = Some equations" by auto
  from sls_retry_Some [OF this] assms show False by auto
qed

lemma sls_retry_first:
  "modules \<le> 1 \<Longrightarrow> sls_retry attempt constants_of modules 0 = Some (attempt 0)"
  using sls_retry_found [of modules constants_of attempt 0 0] by simp

lemma sls_retry_least:
  "1 < modules \<Longrightarrow> constants_of (attempt n) \<noteq> [] \<Longrightarrow> (\<forall>m<n. constants_of (attempt m) = []) \<Longrightarrow>
   sls_retry attempt constants_of modules 0 = Some (attempt n)"
  using sls_retry_found [of modules constants_of attempt 0 n] by simp

lemma sls_retry_returns:
  assumes "modules \<le> 1 \<or> (\<exists>k. constants_of (attempt k) \<noteq> [])"
  shows "\<exists>n. sls_retry attempt constants_of modules 0 = Some (attempt n)"
proof (cases "modules \<le> 1")
  case True
  then show ?thesis using sls_retry_first by blast
next
  case False
  with assms have ex: "\<exists>k. constants_of (attempt k) \<noteq> []" by simp
  define n where "n = (LEAST k. constants_of (attempt k) \<noteq> [])"
  have n1: "constants_of (attempt n) \<noteq> []" unfolding n_def using ex by (rule LeastI_ex)
  have n2: "\<forall>m<n. constants_of (attempt m) = []" unfolding n_def using not_less_Least by blast
  from False have "1 < modules" by simp
  from sls_retry_least [of modules constants_of attempt n, OF this n1 n2] show ?thesis by blast
qed

lemma length_pop_variables:
  "pop_variables L ctx n = Inr (variables, ctx') \<Longrightarrow> length variables = n"
  by (induction n arbitrary: ctx variables ctx') (auto split: sum.splits prod.splits)

lemma sls_solutions_first:
  assumes "1 \<le> degree"
  shows "sls_solutions L entropy degree value d \<noteq> []"
    and "value = Some v \<Longrightarrow> sls_solutions L entropy degree value d ! 0 = v"
proof -
  show "sls_solutions L entropy degree value d \<noteq> []"
  proof (cases "value")
    case None
    with assms show ?thesis
      by (simp add: sls_solutions_def sls_extra_solutions_needed_def sls_given_def
          sls_entropies_def dirichlet_def Let_def)
  next
    case (Some v)
    then show ?thesis
      by (simp add: sls_solutions_def sls_given_def Let_def)
  qed
  show "value = Some v \<Longrightarrow> sls_solutions L entropy degree value d ! 0 = v"
    by (simp add: sls_solutions_def sls_given_def Let_def)
qed

lemma sls_result_shape:
  assumes "sample_by_replacing_constants L ctx sample_args equations = Inr (equations', ctx')"
    and "variables \<noteq> []" and "solutions \<noteq> []"
  shows "sls_result L is_question ctx sample_args variables solutions 0 equations u =
    Inr (if is_question
         then ReturnsProblem
            \<lparr>question = example_question L ctx' ''Solve {equations} for {variable}.''
               [(''equations'', Str (join '', '' (map (str L) equations'))),
                (''variable'', Expr (variables ! 0))],
             answer = Expr (Number (solutions ! 0))\<rparr>
         else ReturnsEntity
            (Entity ctx' (Number (solutions ! 0)) ''Suppose {equations}.'' (variables ! 0)
               (Some (join '', '' (map (str L) equations'))) None []))"
  using assms by (simp add: sls_result_def index_def choice_def solve_templates_def Let_def)

lemma demo_lib_sel:
  "peel demo_lib = (\<lambda>a. (sa_entropy a, a))"
  "new_context demo_lib = Context [''a'', ''b'', ''c''] []"
  "context_pop demo_lib = (\<lambda>c. case pool c of [] \<Rightarrow> Inl PoolExhausted
                         | name # names \<Rightarrow> Inr (name, Context names (entities c)))"
  "context_sample demo_lib = (\<lambda>c a specs. Inr (map (\<lambda>e. Entity c e [] (Symbol ''f'') None None []) specs, c))"
  "sample_by_replacing_constants demo_lib = (\<lambda>c a equations. Inr (equations, c))"
  "linear_system demo_lib = (\<lambda>variables solutions e i u.
        if u = 0 then [Eq (variables ! i) (Node ''-'' [variables ! i])]
        else [Eq (Node ''+'' [variables ! i, Number 2]) (Number (solutions ! i + 2))])"
  "number_constants demo_lib = (\<lambda>equations. concat (map numbers_of equations))"
  "coefficients_to_polynomial demo_lib = (\<lambda>coeffs variable. Node ''poly'' (variable # map Number coeffs))"
  "factor demo_lib = (\<lambda>e. Node ''factor'' [e])"
  "handle_apply demo_lib = (\<lambda>h variable. Node ''apply'' [h, variable])"
  "str demo_lib = (\<lambda>e. ''equation'')"
  "example_question demo_lib = (\<lambda>c template slots. template)"
  "sample_with_small_evaluation demo_lib = (\<lambda>variable degree max_abs_input e u. Node ''p'' [variable])"
  "subs demo_lib = (\<lambda>p variable n. Node ''subs'' [p, variable, Number (of_int n)])"
  by (simp_all add: demo_lib_def)

lemma demo_ld:
  "ld_dirichlet demo_ls_draws = (\<lambda>i. 1 / 2)"
  "ld_number demo_ls_draws = (\<lambda>i. i + 3)"
  "ld_system demo_ls_draws = (\<lambda>k. k)"
  "ld_template demo_ls_draws = 0"
  "ld_dirichlet demo_ls_draws_stuck = (\<lambda>i. 1 / 2)"
  "ld_number demo_ls_draws_stuck = (\<lambda>i. i + 3)"
  "ld_system demo_ls_draws_stuck = (\<lambda>k. 0)"
  "ld_template demo_ls_draws_stuck = 0"
  by (simp_all add: demo_ls_draws_def demo_ls_draws_stuck_def)

lemma demo_args:
  "num_modules demo_pure_args = 1" "sa_entropy demo_pure_args = 2"
  "num_modules demo_composed_args = 2" "sa_entropy demo_composed_args = 2"
  by (simp_all add: demo_pure_args_def demo_composed_args_def)

lemma demo_solutions:
  "sls_solutions demo_lib 2 1 None demo_ls_draws = [3]"
  "sls_solutions demo_lib 2 1 None demo_ls_draws_stuck = [3]"
  by (simp_all add: sls_solutions_def sls_extra_solutions_needed_def sls_given_def sls_entropies_def
      dirichlet_def demo_ld demo_samplers)

lemma demo_entropy:
  "sls_entropy 2 1 None demo_ls_draws = 1"
  "sls_entropy 2 1 None demo_ls_draws_stuck = 1"
  by (simp_all add: sls_entropy_def sls_extra_solutions_needed_def sls_given_def sls_entropies_def
      dirichlet_def demo_ld)

lemma demo_pop:
  "pop_variables demo_lib demo_context (nat 1) = Inr ([Symbol ''x''], Context [''y''] [])"
  "pop_variables demo_lib (Context [''a'', ''b'', ''c''] []) (nat 1)
     = Inr ([Symbol ''a''], Context [''b'', ''c''] [])"
  by (simp_all add: demo_context_def demo_lib_sel eval_nat_numeral)

lemma solve_linear_system_unfold:
  assumes "pop_variables L (case context of None \<Rightarrow> new_context L | Some c \<Rightarrow> c) (nat degree)
           = Inr (variables, ctx1)"
  shows "solve_linear_system L degree value sample_args context d =
    (case sls_retry
            (\<lambda>k. linear_system L variables
                   (sls_solutions L (fst (peel L sample_args)) degree value d)
                   (sls_entropy (fst (peel L sample_args)) degree value d) 0 (ld_system d k))
            (number_constants L) (num_modules (snd (peel L sample_args))) 0 of
       None \<Rightarrow> None
     | Some equations \<Rightarrow>
         Some (sls_result L (context = None) ctx1 (snd (peel L sample_args)) variables
                 (sls_solutions L (fst (peel L sample_args)) degree value d) 0 equations
                 (ld_template d)))"
  using assms by (simp add: solve_linear_system_def Let_def)

lemma sls_result_kind:
  assumes "sls_result L is_question c a variables solutions i equations u = Inr r"
  shows "(is_question \<longrightarrow> (\<exists>p. r = ReturnsProblem p))
       \<and> (\<not> is_question \<longrightarrow> (\<exists>e. r = ReturnsEntity e))"
  using assms
  by (auto simp: sls_result_def Let_def split: sum.splits prod.splits if_splits)

text \<open>
  Claim C1, amended. Whatever a call returns is a problem when the context argument is
  \<open>None\<close> and an entity when a context is given. A call for a degree of at least 1
  (\<open>solve_linear_1d\<close>, \<open>solve_linear_2d\<close>) returns when the context has a name for every
  variable, the retry loop accepts an attempt (the first one when at most one module is
  left, the first one with a numeric constant otherwise) and the substitution of constants
  succeeds on the accepted system. The result is then built from the equations and the
  context that this substitution returns: the problem asks to solve these equations for
  the first variable and has the first solution as its answer; the entity has the first
  solution as its value, the first variable as its handle and the text of these equations.
  The first solution is the given value when there is one.
\<close>

theorem solve_linear_system_returns:
  "(\<forall>r. solve_linear_system L degree val sample_args ctx d = Some (Inr r) \<longrightarrow>
        (ctx = None \<longrightarrow> (\<exists>p. r = ReturnsProblem p))
      \<and> (ctx \<noteq> None \<longrightarrow> (\<exists>e. r = ReturnsEntity e)))
   \<and> (1 \<le> degree
       \<and> pop_variables L (case ctx of None \<Rightarrow> new_context L | Some c \<Rightarrow> c) (nat degree)
           = Inr (variables, ctx_popped)
       \<and> solutions = sls_solutions L (fst (peel L sample_args)) degree val d
       \<and> attempt = (\<lambda>k. linear_system L variables solutions
                          (sls_entropy (fst (peel L sample_args)) degree val d) 0 (ld_system d k))
       \<and> (num_modules (snd (peel L sample_args)) \<le> 1 \<and> n = 0
          \<or> 1 < num_modules (snd (peel L sample_args))
            \<and> number_constants L (attempt n) \<noteq> []
            \<and> (\<forall>m<n. number_constants L (attempt m) = []))
       \<and> sample_by_replacing_constants L ctx_popped (snd (peel L sample_args)) (attempt n)
           = Inr (equations', ctx_final)
      \<longrightarrow>
        solve_linear_system L degree val sample_args ctx d =
          Some (Inr (case ctx of
            None \<Rightarrow> ReturnsProblem
               \<lparr>question = example_question L ctx_final ''Solve {equations} for {variable}.''
                  [(''equations'', Str (join '', '' (map (str L) equations'))),
                   (''variable'', Expr (variables ! 0))],
                answer = Expr (Number (solutions ! 0))\<rparr>
          | Some c \<Rightarrow> ReturnsEntity
               (Entity ctx_final (Number (solutions ! 0)) ''Suppose {equations}.'' (variables ! 0)
                  (Some (join '', '' (map (str L) equations'))) None [])))
      \<and> (\<forall>v. val = Some v \<longrightarrow> solutions ! 0 = v))"
proof (intro conjI allI impI)
  fix r
  assume "solve_linear_system L degree val sample_args ctx d = Some (Inr r)"
  then obtain q c a vs sols eqs where
    "sls_result L (ctx = None) c a vs sols 0 eqs (ld_template d) = Inr r"
    by (auto simp: solve_linear_system_def Let_def split: sum.splits prod.splits option.splits)
  from sls_result_kind [OF this]
  show "ctx = None \<Longrightarrow> \<exists>p. r = ReturnsProblem p"
    and "ctx \<noteq> None \<Longrightarrow> \<exists>e. r = ReturnsEntity e" by blast+
next
  assume h: "1 \<le> degree
       \<and> pop_variables L (case ctx of None \<Rightarrow> new_context L | Some c \<Rightarrow> c) (nat degree)
           = Inr (variables, ctx_popped)
       \<and> solutions = sls_solutions L (fst (peel L sample_args)) degree val d
       \<and> attempt = (\<lambda>k. linear_system L variables solutions
                          (sls_entropy (fst (peel L sample_args)) degree val d) 0 (ld_system d k))
       \<and> (num_modules (snd (peel L sample_args)) \<le> 1 \<and> n = 0
          \<or> 1 < num_modules (snd (peel L sample_args))
            \<and> number_constants L (attempt n) \<noteq> []
            \<and> (\<forall>m<n. number_constants L (attempt m) = []))
       \<and> sample_by_replacing_constants L ctx_popped (snd (peel L sample_args)) (attempt n)
           = Inr (equations', ctx_final)"
  then have deg: "1 \<le> degree"
    and pop: "pop_variables L (case ctx of None \<Rightarrow> new_context L | Some c \<Rightarrow> c) (nat degree)
           = Inr (variables, ctx_popped)"
    and sol: "solutions = sls_solutions L (fst (peel L sample_args)) degree val d"
    and att: "attempt = (\<lambda>k. linear_system L variables solutions
                          (sls_entropy (fst (peel L sample_args)) degree val d) 0 (ld_system d k))"
    and acc: "num_modules (snd (peel L sample_args)) \<le> 1 \<and> n = 0
          \<or> 1 < num_modules (snd (peel L sample_args))
            \<and> number_constants L (attempt n) \<noteq> []
            \<and> (\<forall>m<n. number_constants L (attempt m) = [])"
    and rep: "sample_by_replacing_constants L ctx_popped (snd (peel L sample_args)) (attempt n)
           = Inr (equations', ctx_final)"
    by blast+
  have loop: "sls_retry attempt (number_constants L) (num_modules (snd (peel L sample_args))) 0
      = Some (attempt n)"
    using acc sls_retry_first [of "num_modules (snd (peel L sample_args))" attempt "number_constants L"]
      sls_retry_least [of "num_modules (snd (peel L sample_args))" "number_constants L" attempt n]
    by blast
  have v: "variables \<noteq> []" using length_pop_variables [OF pop] deg by auto
  have s: "solutions \<noteq> []" unfolding sol using deg by (rule sls_solutions_first(1))
  have "solve_linear_system L degree val sample_args ctx d =
      Some (sls_result L (ctx = None) ctx_popped (snd (peel L sample_args)) variables solutions 0
              (attempt n) (ld_template d))"
    unfolding solve_linear_system_unfold [OF pop] using loop unfolding att sol by simp
  also have "\<dots> = Some (Inr (case ctx of
            None \<Rightarrow> ReturnsProblem
               \<lparr>question = example_question L ctx_final ''Solve {equations} for {variable}.''
                  [(''equations'', Str (join '', '' (map (str L) equations'))),
                   (''variable'', Expr (variables ! 0))],
                answer = Expr (Number (solutions ! 0))\<rparr>
          | Some c \<Rightarrow> ReturnsEntity
               (Entity ctx_final (Number (solutions ! 0)) ''Suppose {equations}.'' (variables ! 0)
                  (Some (join '', '' (map (str L) equations'))) None [])))"
    unfolding sls_result_shape [OF rep v s] by (cases ctx) simp_all
  finally show "solve_linear_system L degree val sample_args ctx d =
          Some (Inr (case ctx of
            None \<Rightarrow> ReturnsProblem
               \<lparr>question = example_question L ctx_final ''Solve {equations} for {variable}.''
                  [(''equations'', Str (join '', '' (map (str L) equations'))),
                   (''variable'', Expr (variables ! 0))],
                answer = Expr (Number (solutions ! 0))\<rparr>
          | Some c \<Rightarrow> ReturnsEntity
               (Entity ctx_final (Number (solutions ! 0)) ''Suppose {equations}.'' (variables ! 0)
                  (Some (join '', '' (map (str L) equations'))) None [])))" .
  fix v assume "val = Some v"
  then show "solutions ! 0 = v"
    unfolding sol using sls_solutions_first(2) [OF deg] by blast
qed


theorem solve_linear_system_returns_witness:
  "(1::int) \<le> 1
   \<and> pop_variables demo_lib demo_context (nat 1) = Inr ([Symbol ''x''], Context [''y''] [])
   \<and> sls_solutions demo_lib 2 1 None demo_ls_draws = [3]
   \<and> (1::int) < num_modules demo_composed_args
   \<and> number_constants demo_lib (linear_system demo_lib [Symbol ''x''] [3] 1 0 0) = []
   \<and> number_constants demo_lib (linear_system demo_lib [Symbol ''x''] [3] 1 0 1) \<noteq> []
   \<and> sample_by_replacing_constants demo_lib (Context [''y''] []) demo_composed_args
         [Eq (Node ''+'' [Symbol ''x'', Number 2]) (Number 5)]
       = Inr ([Eq (Node ''+'' [Symbol ''x'', Number 2]) (Number 5)], Context [''y''] [])
   \<and> solve_linear_1d demo_lib None demo_composed_args (Some demo_context) demo_ls_draws =
       Some (Inr (ReturnsEntity
         (Entity (Context [''y''] []) (Number 3) ''Suppose {equations}.'' (Symbol ''x'')
            (Some (join '', '' (map (str demo_lib)
               [Eq (Node ''+'' [Symbol ''x'', Number 2]) (Number 5)]))) None [])))"
proof -
  let ?attempt = "\<lambda>k. linear_system demo_lib [Symbol ''x''] [3]
      (sls_entropy (fst (peel demo_lib demo_composed_args)) 1 None demo_ls_draws) 0
      (ld_system demo_ls_draws k)"
  have h1: "(1::int) \<le> 1" by simp
  have h2: "pop_variables demo_lib
      (case Some demo_context of None \<Rightarrow> new_context demo_lib | Some c \<Rightarrow> c) (nat 1)
      = Inr ([Symbol ''x''], Context [''y''] [])" by (simp only: option.case demo_pop)
  have h3: "[3] = sls_solutions demo_lib (fst (peel demo_lib demo_composed_args)) 1 None demo_ls_draws"
    by (simp add: demo_lib_sel(1) demo_args demo_solutions)
  have a0: "?attempt 0 = [Eq (Symbol ''x'') (Node ''-'' [Symbol ''x''])]"
    by (simp add: demo_lib_sel demo_ld)
  have a1: "?attempt 1 = [Eq (Node ''+'' [Symbol ''x'', Number 2]) (Number 5)]"
    by (simp add: demo_lib_sel demo_ld)
  have m: "1 < num_modules (snd (peel demo_lib demo_composed_args))"
    by (simp add: demo_lib_sel(1) demo_args)
  have c1: "number_constants demo_lib (?attempt 1) \<noteq> []"
    unfolding a1 by (simp add: demo_lib_sel)
  have c0: "\<forall>m<1::nat. number_constants demo_lib (?attempt m) = []"
    using a0 by (simp add: demo_lib_sel)
  have h5: "num_modules (snd (peel demo_lib demo_composed_args)) \<le> 1 \<and> (1::nat) = 0
          \<or> 1 < num_modules (snd (peel demo_lib demo_composed_args))
            \<and> number_constants demo_lib (?attempt 1) \<noteq> []
            \<and> (\<forall>m<1. number_constants demo_lib (?attempt m) = [])"
    using m c1 c0 by blast
  have h6: "sample_by_replacing_constants demo_lib (Context [''y''] [])
      (snd (peel demo_lib demo_composed_args)) (?attempt 1)
      = Inr ([Eq (Node ''+'' [Symbol ''x'', Number 2]) (Number 5)], Context [''y''] [])"
    unfolding a1 by (simp add: demo_lib_sel)
  have prem: "(1::int) \<le> 1
       \<and> pop_variables demo_lib
             (case Some demo_context of None \<Rightarrow> new_context demo_lib | Some c \<Rightarrow> c) (nat 1)
           = Inr ([Symbol ''x''], Context [''y''] [])
       \<and> [3] = sls_solutions demo_lib (fst (peel demo_lib demo_composed_args)) 1 None demo_ls_draws
       \<and> ?attempt = (\<lambda>k. linear_system demo_lib [Symbol ''x''] [3]
                          (sls_entropy (fst (peel demo_lib demo_composed_args)) 1 None demo_ls_draws)
                          0 (ld_system demo_ls_draws k))
       \<and> (num_modules (snd (peel demo_lib demo_composed_args)) \<le> 1 \<and> (1::nat) = 0
          \<or> 1 < num_modules (snd (peel demo_lib demo_composed_args))
            \<and> number_constants demo_lib (?attempt 1) \<noteq> []
            \<and> (\<forall>m<1. number_constants demo_lib (?attempt m) = []))
       \<and> sample_by_replacing_constants demo_lib (Context [''y''] [])
             (snd (peel demo_lib demo_composed_args)) (?attempt 1)
           = Inr ([Eq (Node ''+'' [Symbol ''x'', Number 2]) (Number 5)], Context [''y''] [])"
    using h1 h2 h3 h5 h6 by (intro conjI) (rule refl | assumption)+
  note t = solve_linear_system_returns
    [where L = demo_lib and degree = 1 and val = None and sample_args = demo_composed_args
       and ctx = "Some demo_context" and d = demo_ls_draws and variables = "[Symbol ''x'']"
       and ctx_popped = "Context [''y''] []" and solutions = "[3]" and attempt = ?attempt and n = 1
       and equations' = "[Eq (Node ''+'' [Symbol ''x'', Number 2]) (Number 5)]"
       and ctx_final = "Context [''y''] []", THEN conjunct2, THEN mp, OF prem, THEN conjunct1]
  have "solve_linear_system demo_lib 1 None demo_composed_args (Some demo_context) demo_ls_draws =
       Some (Inr (ReturnsEntity
         (Entity (Context [''y''] []) (Number 3) ''Suppose {equations}.'' (Symbol ''x'')
            (Some (join '', '' (map (str demo_lib)
               [Eq (Node ''+'' [Symbol ''x'', Number 2]) (Number 5)]))) None [])))"
    using t by (simp only: option.case list.simps nth_Cons_0)
  then have r: "solve_linear_1d demo_lib None demo_composed_args (Some demo_context) demo_ls_draws =
       Some (Inr (ReturnsEntity
         (Entity (Context [''y''] []) (Number 3) ''Suppose {equations}.'' (Symbol ''x'')
            (Some (join '', '' (map (str demo_lib)
               [Eq (Node ''+'' [Symbol ''x'', Number 2]) (Number 5)]))) None [])))"
    by (simp add: solve_linear_1d_def)
  have e0: "number_constants demo_lib (linear_system demo_lib [Symbol ''x''] [3] 1 0 0) = []"
    by (simp add: demo_lib_sel)
  have e1: "number_constants demo_lib (linear_system demo_lib [Symbol ''x''] [3] 1 0 1) \<noteq> []"
    by (simp add: demo_lib_sel)
  have e2: "sample_by_replacing_constants demo_lib (Context [''y''] []) demo_composed_args
         [Eq (Node ''+'' [Symbol ''x'', Number 2]) (Number 5)]
       = Inr ([Eq (Node ''+'' [Symbol ''x'', Number 2]) (Number 5)], Context [''y''] [])"
    by (simp add: demo_lib_sel)
  have e3: "(1::int) < num_modules demo_composed_args" by (simp add: demo_args)
  from h1 demo_pop(1) demo_solutions(1) e3 e0 e1 e2 r show ?thesis by blast
qed

text \<open>
  Against claim C1 as stated: a call on a context whose pool of names is empty raises and
  returns neither a problem nor an entity.
\<close>

theorem solve_linear_system_returns_counterexample:
  "solve_linear_1d demo_lib None demo_pure_args (Some (Context [] [])) demo_ls_draws
     = Some (Inl PoolExhausted)"
  by (simp add: solve_linear_1d_def solve_linear_system_def demo_lib_sel eval_nat_numeral)

text \<open>
  Claim C3, amended. The retry loop has no iteration cap. When the module count left after
  peeling is at most 1, the first system is accepted. When it is above 1, the call goes on
  with the first system that has a numeric constant, however many attempts that takes, and
  never returns when no attempt has one. The loop itself raises no error.
\<close>

theorem solve_linear_system_retry:
  assumes "pop_variables L (case context of None \<Rightarrow> new_context L | Some c \<Rightarrow> c) (nat degree)
           = Inr (variables, ctx1)"
    and "attempt = (\<lambda>k. linear_system L variables
                   (sls_solutions L (fst (peel L sample_args)) degree value d)
                   (sls_entropy (fst (peel L sample_args)) degree value d) 0 (ld_system d k))"
    and "modules = num_modules (snd (peel L sample_args))"
    and "finish = (\<lambda>equations. sls_result L (context = None) ctx1 (snd (peel L sample_args)) variables
                 (sls_solutions L (fst (peel L sample_args)) degree value d) 0 equations
                 (ld_template d))"
  shows "(modules \<le> 1 \<longrightarrow>
            solve_linear_system L degree value sample_args context d = Some (finish (attempt 0)))
       \<and> (\<forall>n. 1 < modules \<and> number_constants L (attempt n) \<noteq> []
                \<and> (\<forall>m<n. number_constants L (attempt m) = []) \<longrightarrow>
            solve_linear_system L degree value sample_args context d = Some (finish (attempt n)))
       \<and> (1 < modules \<and> (\<forall>n. number_constants L (attempt n) = []) \<longrightarrow>
            solve_linear_system L degree value sample_args context d = None)"
proof -
  have u: "solve_linear_system L degree value sample_args context d =
      (case sls_retry attempt (number_constants L) modules 0 of
         None \<Rightarrow> None | Some equations \<Rightarrow> Some (finish equations))"
    unfolding assms(2,3,4) by (rule solve_linear_system_unfold [OF assms(1)])
  have a: "modules \<le> 1 \<longrightarrow>
      solve_linear_system L degree value sample_args context d = Some (finish (attempt 0))"
    unfolding u by (simp add: sls_retry_first)
  have b: "\<forall>n. 1 < modules \<and> number_constants L (attempt n) \<noteq> []
                \<and> (\<forall>m<n. number_constants L (attempt m) = []) \<longrightarrow>
      solve_linear_system L degree value sample_args context d = Some (finish (attempt n))"
  proof (intro allI impI)
    fix n
    assume h: "1 < modules \<and> number_constants L (attempt n) \<noteq> []
                \<and> (\<forall>m<n. number_constants L (attempt m) = [])"
    then have "sls_retry attempt (number_constants L) modules 0 = Some (attempt n)"
      using sls_retry_least [of modules "number_constants L" attempt n] by blast
    then show "solve_linear_system L degree value sample_args context d = Some (finish (attempt n))"
      unfolding u by simp
  qed
  have c: "1 < modules \<and> (\<forall>n. number_constants L (attempt n) = []) \<longrightarrow>
      solve_linear_system L degree value sample_args context d = None"
  proof
    assume h: "1 < modules \<and> (\<forall>n. number_constants L (attempt n) = [])"
    then have "sls_retry attempt (number_constants L) modules 0 = None"
      using sls_retry_never [of modules "number_constants L" attempt 0] by blast
    then show "solve_linear_system L degree value sample_args context d = None"
      unfolding u by simp
  qed
  from a b c show ?thesis by blast
qed

lemma demo_attempts:
  "number_constants demo_lib (linear_system demo_lib [Symbol ''a''] [3] 1 0 0) = []"
  "number_constants demo_lib (linear_system demo_lib [Symbol ''a''] [3] 1 0 1) = [Number 2, Number 5]"
  by (simp_all add: demo_lib_sel)

lemma demo_finish:
  "sls_result demo_lib True (Context [''b'', ''c''] []) demo_composed_args [Symbol ''a''] [3] 0
     (linear_system demo_lib [Symbol ''a''] [3] 1 0 1) 0 =
   Inr (ReturnsProblem \<lparr>question = ''Solve {equations} for {variable}.'', answer = Expr (Number 3)\<rparr>)"
  by (simp add: sls_result_def demo_lib_sel index_def choice_def solve_templates_def)

theorem solve_linear_system_retry_witness:
  "pop_variables demo_lib (Context [''a'', ''b'', ''c''] []) (nat 1)
     = Inr ([Symbol ''a''], Context [''b'', ''c''] [])
   \<and> (1::int) < 2
   \<and> number_constants demo_lib (linear_system demo_lib [Symbol ''a''] [3] 1 0 1) \<noteq> []
   \<and> number_constants demo_lib (linear_system demo_lib [Symbol ''a''] [3] 1 0 0) = []
   \<and> solve_linear_system demo_lib 1 None demo_composed_args None demo_ls_draws =
       Some (Inr (ReturnsProblem
         \<lparr>question = ''Solve {equations} for {variable}.'', answer = Expr (Number 3)\<rparr>))"
proof -
  have h1: "pop_variables demo_lib
      (case None of None \<Rightarrow> new_context demo_lib | Some c \<Rightarrow> c) (nat 1)
      = Inr ([Symbol ''a''], Context [''b'', ''c''] [])"
    by (simp only: option.case demo_lib_sel demo_pop)
  have h2: "(\<lambda>k. linear_system demo_lib [Symbol ''a''] [3] 1 0 k) =
      (\<lambda>k. linear_system demo_lib [Symbol ''a'']
              (sls_solutions demo_lib (fst (peel demo_lib demo_composed_args)) 1 None demo_ls_draws)
              (sls_entropy (fst (peel demo_lib demo_composed_args)) 1 None demo_ls_draws) 0
              (ld_system demo_ls_draws k))"
    by (simp add: demo_lib_sel(1) demo_args demo_solutions demo_entropy demo_ld)
  have h3: "(2::int) = num_modules (snd (peel demo_lib demo_composed_args))"
    by (simp add: demo_lib_sel(1) demo_args)
  have h4: "(\<lambda>equations. sls_result demo_lib True (Context [''b'', ''c''] []) demo_composed_args
                 [Symbol ''a''] [3] 0 equations 0) =
      (\<lambda>equations. sls_result demo_lib (None = (None :: context option)) (Context [''b'', ''c''] [])
                 (snd (peel demo_lib demo_composed_args)) [Symbol ''a'']
                 (sls_solutions demo_lib (fst (peel demo_lib demo_composed_args)) 1 None demo_ls_draws)
                 0 equations (ld_template demo_ls_draws))"
    by (simp add: demo_lib_sel(1) demo_args demo_solutions demo_ld)
  have z: "\<forall>m<1::nat. number_constants demo_lib (linear_system demo_lib [Symbol ''a''] [3] 1 0 m) = []"
    using demo_attempts(1) by simp
  have c: "number_constants demo_lib (linear_system demo_lib [Symbol ''a''] [3] 1 0 1) \<noteq> []"
    using demo_attempts(2) by simp
  from solve_linear_system_retry [OF h1 h2 h3 h4] z c
  have "solve_linear_system demo_lib 1 None demo_composed_args None demo_ls_draws =
       Some (sls_result demo_lib True (Context [''b'', ''c''] []) demo_composed_args
                 [Symbol ''a''] [3] 0 (linear_system demo_lib [Symbol ''a''] [3] 1 0 1) 0)"
    by simp
  then show ?thesis using demo_pop(2) demo_attempts(1) c unfolding demo_finish by simp
qed

text \<open>
  Against claim C3 as stated: with two modules left and a construction that yields
  \<open>x = -x\<close> at every attempt, the call never returns, so no cap ends the loop.
\<close>

theorem solve_linear_system_retry_counterexample:
  "solve_linear_system demo_lib 1 None demo_composed_args None demo_ls_draws_stuck = None"
proof -
  have p: "pop_variables demo_lib
      (case None of None \<Rightarrow> new_context demo_lib | Some c \<Rightarrow> c) (nat 1)
      = Inr ([Symbol ''a''], Context [''b'', ''c''] [])"
    by (simp only: option.case demo_lib_sel demo_pop)
  have m: "1 < num_modules (snd (peel demo_lib demo_composed_args))"
    by (simp add: demo_lib_sel(1) demo_args)
  let ?attempt = "\<lambda>k. linear_system demo_lib [Symbol ''a'']
         (sls_solutions demo_lib (fst (peel demo_lib demo_composed_args)) 1 None demo_ls_draws_stuck)
         (sls_entropy (fst (peel demo_lib demo_composed_args)) 1 None demo_ls_draws_stuck) 0
         (ld_system demo_ls_draws_stuck k)"
  have "\<forall>n. number_constants demo_lib (?attempt n) = []"
    by (simp add: demo_ld demo_lib_sel)
  with m have "sls_retry ?attempt (number_constants demo_lib)
      (num_modules (snd (peel demo_lib demo_composed_args))) 0 = None"
    by (rule sls_retry_never [of _ "number_constants demo_lib" ?attempt 0])
  then show ?thesis
    unfolding solve_linear_system_unfold [OF p] by simp
qed


section \<open>Linear systems: the entropy clamp\<close>

lemma sls_entropies_ge_1: "e \<in> set (sls_entropies entropy extra weights) \<Longrightarrow> 1 \<le> e"
  by (auto simp: sls_entropies_def)

lemma sls_entropy_ge_1: "1 \<le> sls_entropy entropy degree value d"
  by (simp add: sls_entropy_def Let_def)

lemma pop_variables_cong:
  "context_pop L' = context_pop L \<Longrightarrow> pop_variables L' ctx n = pop_variables L ctx n"
  by (induction n arbitrary: ctx) (simp_all split: sum.splits prod.splits)

lemma sls_solutions_cong:
  assumes "\<forall>e s u. 1 \<le> e \<longrightarrow> number_integer L' e s u = number_integer L e s u"
  shows "sls_solutions L' entropy degree value d = sls_solutions L entropy degree value d"
proof -
  have "\<And>es. (\<forall>e\<in>set es. 1 \<le> e) \<Longrightarrow>
      map (\<lambda>i. number_integer L' (es ! i) True (ld_number d i)) [0..<length es] =
      map (\<lambda>i. number_integer L (es ! i) True (ld_number d i)) [0..<length es]"
    using assms by (intro map_cong) auto
  then show ?thesis
    using sls_entropies_ge_1 by (simp add: sls_solutions_def Let_def)
qed

text \<open>
  Claim C8. Every entropy with which an extra solution is sampled is at least 1, and so
  is the entropy handed to the construction of the system, whatever the peeled entropy
  is. Hence a call does not depend on what the integer sampler and the construction of
  systems do at entropies below 1: replacing them by collaborators that agree with them
  from entropy 1 on leaves the call unchanged.
\<close>

theorem solve_linear_system_entropy_clamp:
  assumes "\<forall>e s u. 1 \<le> e \<longrightarrow> ni e s u = number_integer L e s u"
    and "\<forall>variables solutions e i u. 1 \<le> e \<longrightarrow>
           ls variables solutions e i u = linear_system L variables solutions e i u"
  shows "(\<forall>e \<in> set (sls_entropies entropy extra weights). 1 \<le> e)
       \<and> 1 \<le> sls_entropy entropy degree val d
       \<and> solve_linear_system (L\<lparr>number_integer := ni, linear_system := ls\<rparr>)
             degree val sample_args ctx d
           = solve_linear_system L degree val sample_args ctx d"
proof -
  let ?L = "L\<lparr>number_integer := ni, linear_system := ls\<rparr>"
  have sel: "peel ?L = peel L" "new_context ?L = new_context L"
      "number_constants ?L = number_constants L"
    by simp_all
  have sol: "\<And>e. sls_solutions ?L e degree val d = sls_solutions L e degree val d"
    using assms(1) by (intro sls_solutions_cong) simp
  have pop: "\<And>c n. pop_variables ?L c n = pop_variables L c n"
    by (rule pop_variables_cong) simp
  have res: "\<And>q c a vs sols i eqs u.
      sls_result ?L q c a vs sols i eqs u = sls_result L q c a vs sols i eqs u"
    by (simp add: sls_result_def Let_def split: sum.splits prod.splits)
  have att: "\<And>vs sols e. (\<lambda>k. linear_system ?L vs sols (sls_entropy e degree val d) 0 (ld_system d k))
      = (\<lambda>k. linear_system L vs sols (sls_entropy e degree val d) 0 (ld_system d k))"
    using assms(2) sls_entropy_ge_1 by simp
  have "solve_linear_system ?L degree val sample_args ctx d
      = solve_linear_system L degree val sample_args ctx d"
    unfolding solve_linear_system_def Let_def sel sol pop res att by (rule refl)
  then show ?thesis using sls_entropies_ge_1 sls_entropy_ge_1 by blast
qed

lemma demo_clamped:
  "sls_entropies 2 2 (\<lambda>i. 1 / 2) = [1, 1]"
  "sls_entropy 2 2 None demo_ls_draws = 1"
  by (simp_all add: sls_entropies_def sls_entropy_def sls_extra_solutions_needed_def sls_given_def
      dirichlet_def demo_ld eval_nat_numeral)

theorem solve_linear_system_entropy_clamp_witness:
  "(if (1::real) \<le> 1 then of_nat 3 else 99) = number_integer demo_lib 1 True 3
   \<and> sls_entropies 2 2 (\<lambda>i. 1 / 2) = [1, 1]
   \<and> sls_entropy 2 2 None demo_ls_draws = 1
   \<and> 2 < sum_list (sls_entropies 2 2 (\<lambda>i. 1 / 2)) + sls_entropy 2 2 None demo_ls_draws
   \<and> solve_linear_system
        (demo_lib\<lparr>number_integer := (\<lambda>e s u. if 1 \<le> e then of_nat u else 99),
                  linear_system := (\<lambda>variables solutions e i u.
                     if 1 \<le> e then linear_system demo_lib variables solutions e i u else [])\<rparr>)
        2 None demo_pure_args None demo_ls_draws
      = solve_linear_system demo_lib 2 None demo_pure_args None demo_ls_draws"
proof -
  have h1: "\<forall>e s u. 1 \<le> e \<longrightarrow> (if 1 \<le> e then of_nat u else 99) = number_integer demo_lib e s u"
    by (simp add: demo_samplers)
  have h2: "\<forall>variables solutions e i u. 1 \<le> e \<longrightarrow>
      (if 1 \<le> e then linear_system demo_lib variables solutions e i u else [])
        = linear_system demo_lib variables solutions e i u"
    by simp
  from solve_linear_system_entropy_clamp [OF h1 h2,
      where entropy = 2 and extra = 2 and weights = "\<lambda>i. 1 / 2" and degree = 2
        and val = None and d = demo_ls_draws and sample_args = demo_pure_args
        and ctx = None]
  have "solve_linear_system
        (demo_lib\<lparr>number_integer := (\<lambda>e s u. if 1 \<le> e then of_nat u else 99),
                  linear_system := (\<lambda>variables solutions e i u.
                     if 1 \<le> e then linear_system demo_lib variables solutions e i u else [])\<rparr>)
        2 None demo_pure_args None demo_ls_draws
      = solve_linear_system demo_lib 2 None demo_pure_args None demo_ls_draws"
    by blast
  moreover have "2 < sum_list (sls_entropies 2 2 (\<lambda>i. 1 / 2)) + sls_entropy 2 2 None demo_ls_draws"
    unfolding demo_clamped by simp
  moreover have "(if (1::real) \<le> 1 then of_nat 3 else 99) = number_integer demo_lib 1 True 3"
    by (simp add: demo_samplers)
  ultimately show ?thesis using demo_clamped by blast
qed


section \<open>polynomial\_roots: what a call returns\<close>




lemma choice_bool: "choice [False, True] u = Inr (odd u)"
proof -
  have c: "choice [False, True] u = Inr ([False, True] ! (u mod 2))"
    by (simp add: choice_def numeral_2_eq_2)
  show ?thesis
  proof (cases "odd u")
    case True
    then have "u mod 2 = 1" by (simp add: odd_iff_mod_2_eq_one)
    with True show ?thesis unfolding c by simp
  next
    case False
    then have "u mod 2 = 0" by simp
    with False show ?thesis unfolding c by simp
  qed
qed

lemma polynomial_roots_unfold:
  assumes "pr_roots L sample_args d = Inr roots"
    and "polynomial_coeffs_with_roots L roots (pr_scale_entropy L sample_args) (pd_scale d)
           = Some (Inr coeffs)"
    and "context_sample L (case ctx of None \<Rightarrow> new_context L | Some c \<Rightarrow> c)
           (snd (peel L sample_args)) [Node ''Polynomial'' (map Number coeffs)] = Inr ([ent], ctx')"
  shows "polynomial_roots L val sample_args ctx d =
     Some (if odd (pd_ask d) then pr_ask L ctx' ent (sort (remdups roots)) (pd_template d)
           else pr_factor L ctx' ent coeffs (pd_template d))"
  using assms by (simp add: polynomial_roots_def Let_def choice_bool)







lemma demo_pd:
  "pd_roots demo_pr_draws = demo_roots_draws" "pd_scale demo_pr_draws = (\<lambda>k. 3 * k)"
  "pd_ask demo_pr_draws = 1" "pd_template demo_pr_draws = 5"
  "pd_roots demo_pr_draws_factor = demo_roots_draws" "pd_scale demo_pr_draws_factor = (\<lambda>k. 3 * k)"
  "pd_ask demo_pr_draws_factor = 0" "pd_template demo_pr_draws_factor = 0"
  by (simp_all add: demo_pr_draws_def demo_pr_draws_factor_def)

lemma demo_poly: "num_modules demo_poly_args = 1" "sa_entropy demo_poly_args = 6"
  by (simp_all add: demo_poly_args_def)

lemma demo_pr_scale: "pr_scale_entropy demo_lib demo_poly_args = 1"
  by (simp add: pr_scale_entropy_def demo_lib_sel(1) demo_poly)

lemma demo_pr_roots:
  "pr_roots demo_lib demo_poly_args demo_pr_draws = Inr [3, 4, 3, 4]"
  "pr_roots demo_lib demo_poly_args demo_pr_draws_factor = Inr [3, 4, 3, 4]"
  by (simp_all add: pr_roots_def demo_pr_scale demo_lib_sel(1) demo_poly demo_pd
      demo_sample_roots)

lemma demo_expand2: "expand_roots [3, 4, 3, 4] = [144, - 168, 73, - 14, 1]"
  by (simp add: expand_roots_def times_linear_def)

lemma demo_lcm2: "sympy_lcm (map denom (expand_roots [3, 4, 3, 4])) = 1"
  by code_simp

lemma demo_coeffs2:
  "polynomial_coeffs_with_roots demo_lib [3, 4, 3, 4] 1 (\<lambda>k. 3 * k)
     = Some (Inr [432, - 504, 219, - 42, 3])"
  unfolding polynomial_coeffs_with_roots_def Let_def demo_lcm2 demo_scale
  by (simp add: demo_expand2)


lemma demo_sample:
  "context_sample demo_lib (case Some demo_context of None \<Rightarrow> new_context demo_lib | Some c \<Rightarrow> c)
     (snd (peel demo_lib demo_poly_args)) [spec]
   = Inr ([Entity demo_context spec [] (Symbol ''f'') None None []], demo_context)"
  by (simp add: demo_lib_sel)


lemma demo_polynomial_roots_factor:
  "polynomial_roots demo_lib None demo_poly_args (Some demo_context) demo_pr_draws_factor =
     Some (Inr (ReturnsProblem
       \<lparr>question = ''Factor {expression}.'',
        answer = Expr (Node ''factor''
          [Node ''poly'' [Symbol ''x'', Number 432, Number (- 504), Number 219, Number (- 42),
             Number 3]])\<rparr>))"
  unfolding polynomial_roots_unfold
    [OF demo_pr_roots(2) demo_coeffs2 [folded demo_pr_scale demo_pd(6)] demo_sample]
  by (simp add: demo_pd pr_factor_def demo_lib_sel demo_context_def choice_def
      factor_templates_def)










section \<open>The terms shown of a sequence\<close>

lemma seq_degree_range:
  "1 \<le> ps_degree (seq_sequence L min_entropy max_entropy variable d)
   \<and> ps_degree (seq_sequence L min_entropy max_entropy variable d) \<le> 3"
  using randint_range [of 1 3 "qd_degree d"]
  by (simp add: seq_sequence_def PolynomialSequence_def Let_def)

lemma seq_num_terms_range:
  "min_num_terms sequence \<le> seq_num_terms sequence d
   \<and> seq_num_terms sequence d \<le> min_num_terms sequence + 3"
  unfolding seq_num_terms_def by (rule randint_range) simp

lemma length_seq_sample: "length (seq_sample L sequence num_terms) = nat num_terms"
  by (simp add: seq_sample_def)

text \<open>
  Claim C6. The sequence that \<open>sequence_next_term\<close> and \<open>sequence_nth_term\<close> build has a
  degree \<open>d\<close> between 1 and 3 and \<open>min_num_terms = d + 2\<close>; the number of terms put into
  the question is at least \<open>d + 2\<close> and at most \<open>d + 5\<close>, so at least 3 for a sequence of
  degree 1; and when the context has a name for the variable, both functions return the
  problem whose question shows exactly these terms.
\<close>

theorem sequence_num_terms:
  assumes "sequence = seq_sequence L min_entropy max_entropy variable d"
    and "num_terms = seq_num_terms sequence d"
  shows "1 \<le> ps_degree sequence \<and> ps_degree sequence \<le> 3
    \<and> min_num_terms sequence = ps_degree sequence + 2
    \<and> ps_degree sequence + 2 \<le> num_terms \<and> num_terms \<le> ps_degree sequence + 5
    \<and> int (length (seq_sample L sequence num_terms)) = num_terms
    \<and> (ps_degree sequence = 1 \<longrightarrow> 3 \<le> length (seq_sample L sequence num_terms))
    \<and> (\<forall>name ctx. context_pop L (new_context L) = Inr (name, ctx) \<and> variable = Symbol name \<longrightarrow>
          (\<exists>template.
             sequence_next_term L min_entropy max_entropy d =
               Inr \<lparr>question = example_question L ctx template
                      [(''sequence'', NumberList (seq_sample L sequence num_terms))],
                    answer = Expr (term L sequence (num_terms + 1))\<rparr>)
        \<and> (\<exists>template.
             sequence_nth_term L min_entropy max_entropy d =
               Inr \<lparr>question = example_question L ctx template
                      [(''variable'', Expr variable),
                       (''sequence'', NumberList (seq_sample L sequence num_terms))],
                    answer = Expr (ps_sympy sequence)\<rparr>))"
proof -
  have d: "1 \<le> ps_degree sequence" "ps_degree sequence \<le> 3"
    unfolding assms(1) using seq_degree_range by blast+
  have m: "min_num_terms sequence = ps_degree sequence + 2" by (simp add: min_num_terms_def)
  have n: "ps_degree sequence + 2 \<le> num_terms" "num_terms \<le> ps_degree sequence + 5"
    unfolding assms(2) using seq_num_terms_range [of sequence d] m by simp_all
  have l: "int (length (seq_sample L sequence num_terms)) = num_terms"
    using n d by (simp add: length_seq_sample)
  have l3: "ps_degree sequence = 1 \<longrightarrow> 3 \<le> length (seq_sample L sequence num_terms)"
    using n by (auto simp: length_seq_sample)
  have r: "\<forall>name ctx. context_pop L (new_context L) = Inr (name, ctx) \<and> variable = Symbol name \<longrightarrow>
          (\<exists>template.
             sequence_next_term L min_entropy max_entropy d =
               Inr \<lparr>question = example_question L ctx template
                      [(''sequence'', NumberList (seq_sample L sequence num_terms))],
                    answer = Expr (term L sequence (num_terms + 1))\<rparr>)
        \<and> (\<exists>template.
             sequence_nth_term L min_entropy max_entropy d =
               Inr \<lparr>question = example_question L ctx template
                      [(''variable'', Expr variable),
                       (''sequence'', NumberList (seq_sample L sequence num_terms))],
                    answer = Expr (ps_sympy sequence)\<rparr>)"
  proof (intro allI impI, elim conjE)
    fix name ctx
    assume p: "context_pop L (new_context L) = Inr (name, ctx)" and v: "variable = Symbol name"
    obtain t1 where t1: "choice next_templates (qd_template d) = Inr t1"
      by (auto simp: choice_def next_templates_def)
    obtain t2 where t2: "choice nth_templates (qd_template d) = Inr t2"
      by (auto simp: choice_def nth_templates_def)
    have 1: "sequence_next_term L min_entropy max_entropy d =
               Inr \<lparr>question = example_question L ctx t1
                      [(''sequence'', NumberList (seq_sample L sequence num_terms))],
                    answer = Expr (term L sequence (num_terms + 1))\<rparr>"
      using p t1 unfolding assms v by (simp add: sequence_next_term_def Let_def)
    have 2: "sequence_nth_term L min_entropy max_entropy d =
               Inr \<lparr>question = example_question L ctx t2
                      [(''variable'', Expr variable),
                       (''sequence'', NumberList (seq_sample L sequence num_terms))],
                    answer = Expr (ps_sympy sequence)\<rparr>"
      using p t2 unfolding assms v by (simp add: sequence_nth_term_def Let_def)
    from 1 2 show "(\<exists>template.
             sequence_next_term L min_entropy max_entropy d =
               Inr \<lparr>question = example_question L ctx template
                      [(''sequence'', NumberList (seq_sample L sequence num_terms))],
                    answer = Expr (term L sequence (num_terms + 1))\<rparr>)
        \<and> (\<exists>template.
             sequence_nth_term L min_entropy max_entropy d =
               Inr \<lparr>question = example_question L ctx template
                      [(''variable'', Expr variable),
                       (''sequence'', NumberList (seq_sample L sequence num_terms))],
                    answer = Expr (ps_sympy sequence)\<rparr>)" by blast
  qed
  from d m n l l3 r show ?thesis by blast
qed

lemma demo_qd:
  "qd_uniform demo_seq_draws = 1 / 2" "qd_degree demo_seq_draws = 0"
  "qd_polynomial demo_seq_draws = 7" "qd_num_terms demo_seq_draws = 0"
  "qd_template demo_seq_draws = 0"
  by (simp_all add: demo_seq_draws_def)

lemma demo_sequence:
  "seq_sequence demo_lib 3 10 (Symbol ''a'') demo_seq_draws =
     \<lparr>ps_degree = 1, ps_variable = Symbol ''a'', ps_sympy = Node ''p'' [Symbol ''a'']\<rparr>"
  by (simp add: seq_sequence_def PolynomialSequence_def randint_def demo_qd demo_lib_sel)

lemma demo_num_terms:
  "seq_num_terms \<lparr>ps_degree = 1, ps_variable = Symbol ''a'', ps_sympy = Node ''p'' [Symbol ''a'']\<rparr>
     demo_seq_draws = 3"
  by (simp add: seq_num_terms_def min_num_terms_def randint_def demo_qd)

lemma demo_seq_sample:
  "seq_sample demo_lib
     \<lparr>ps_degree = 1, ps_variable = Symbol ''a'', ps_sympy = Node ''p'' [Symbol ''a'']\<rparr> 3 =
   [Node ''subs'' [Node ''p'' [Symbol ''a''], Symbol ''a'', Number 1],
    Node ''subs'' [Node ''p'' [Symbol ''a''], Symbol ''a'', Number 2],
    Node ''subs'' [Node ''p'' [Symbol ''a''], Symbol ''a'', Number 3]]"
  by (simp add: seq_sample_def term_def demo_lib_sel eval_nat_numeral)

theorem sequence_num_terms_witness:
  "ps_degree (seq_sequence demo_lib 3 10 (Symbol ''a'') demo_seq_draws) = 1
   \<and> context_pop demo_lib (new_context demo_lib) = Inr (''a'', Context [''b'', ''c''] [])
   \<and> length (seq_sample demo_lib (seq_sequence demo_lib 3 10 (Symbol ''a'') demo_seq_draws) 3) = 3
   \<and> 3 \<le> length (seq_sample demo_lib (seq_sequence demo_lib 3 10 (Symbol ''a'') demo_seq_draws)
                  (seq_num_terms (seq_sequence demo_lib 3 10 (Symbol ''a'') demo_seq_draws)
                     demo_seq_draws))
   \<and> (\<exists>template.
         sequence_next_term demo_lib 3 10 demo_seq_draws =
           Inr \<lparr>question = example_question demo_lib (Context [''b'', ''c''] []) template
                  [(''sequence'', NumberList
                     (seq_sample demo_lib (seq_sequence demo_lib 3 10 (Symbol ''a'') demo_seq_draws)
                        (seq_num_terms (seq_sequence demo_lib 3 10 (Symbol ''a'') demo_seq_draws)
                           demo_seq_draws)))],
                answer = Expr (term demo_lib (seq_sequence demo_lib 3 10 (Symbol ''a'') demo_seq_draws)
                  (seq_num_terms (seq_sequence demo_lib 3 10 (Symbol ''a'') demo_seq_draws)
                     demo_seq_draws + 1))\<rparr>)"
proof -
  have deg: "ps_degree (seq_sequence demo_lib 3 10 (Symbol ''a'') demo_seq_draws) = 1"
    by (simp add: demo_sequence)
  have pop: "context_pop demo_lib (new_context demo_lib) = Inr (''a'', Context [''b'', ''c''] [])"
    by (simp add: demo_lib_sel)
  have len: "length (seq_sample demo_lib (seq_sequence demo_lib 3 10 (Symbol ''a'') demo_seq_draws) 3) = 3"
    by (simp add: demo_sequence demo_seq_sample)
  note t = sequence_num_terms [OF refl refl, of demo_lib 3 10 "Symbol ''a''" demo_seq_draws]
  from t deg have "3 \<le> length (seq_sample demo_lib (seq_sequence demo_lib 3 10 (Symbol ''a'') demo_seq_draws)
                  (seq_num_terms (seq_sequence demo_lib 3 10 (Symbol ''a'') demo_seq_draws)
                     demo_seq_draws))" by blast
  moreover from t pop have "\<exists>template.
         sequence_next_term demo_lib 3 10 demo_seq_draws =
           Inr \<lparr>question = example_question demo_lib (Context [''b'', ''c''] []) template
                  [(''sequence'', NumberList
                     (seq_sample demo_lib (seq_sequence demo_lib 3 10 (Symbol ''a'') demo_seq_draws)
                        (seq_num_terms (seq_sequence demo_lib 3 10 (Symbol ''a'') demo_seq_draws)
                           demo_seq_draws)))],
                answer = Expr (term demo_lib (seq_sequence demo_lib 3 10 (Symbol ''a'') demo_seq_draws)
                  (seq_num_terms (seq_sequence demo_lib 3 10 (Symbol ''a'') demo_seq_draws)
                     demo_seq_draws + 1))\<rparr>" by blast
  ultimately show ?thesis using deg pop len by blast
qed


section \<open>The files written\<close>













lemma demo_jobs:
  "jobs ''out'' demo_counts demo_modules =
     [\<lparr>j_dir = Join (Dir ''out'') ''train-easy'', j_name = ''algebra__linear_1d'',
       j_count = 0, j_module = 0\<rparr>,
      \<lparr>j_dir = Join (Dir ''out'') ''interpolate'', j_name = ''algebra__linear_1d'',
       j_count = 2, j_module = 1\<rparr>]"
  "jobs ''out'' demo_counts_positive demo_modules =
     [\<lparr>j_dir = Join (Dir ''out'') ''train-easy'', j_name = ''algebra__linear_1d'',
       j_count = 1, j_module = 0\<rparr>,
      \<lparr>j_dir = Join (Dir ''out'') ''interpolate'', j_name = ''algebra__linear_1d'',
       j_count = 2, j_module = 1\<rparr>]"
  by (simp_all add: jobs_def regime_jobs_def demo_modules_def demo_counts_def
      demo_counts_positive_def)

lemma demo_counts_defined:
  "\<forall>(regime, flat_modules) \<in> set demo_modules. demo_counts regime \<noteq> None"
  "\<forall>(regime, flat_modules) \<in> set demo_modules. demo_counts_positive regime \<noteq> None"
  by (simp_all add: demo_modules_def demo_counts_def demo_counts_positive_def)







lemma modules_loop_jsonl_zero:
  "nat c = 0 \<Longrightarrow>
   modules_loop ''jsonl'' S dir c items st =
     (None, st\<lparr>files := files st @
        map (\<lambda>j. (Join (j_dir j) (j_name j @ ''.jsonl''), Written [])) (regime_jobs dir c items)\<rparr>)"
proof (induction items arbitrary: st)
  case Nil
  then show ?case by (simp add: regime_jobs_def)
next
  case (Cons item items)
  obtain name m where i: "item = (name, m)" by (cases item)
  show ?case
    unfolding i using Cons.prems
    by (simp add: module_step_def Cons.IH) (simp add: regime_jobs_def)
qed

lemma modules_loop_jsonl_positive:
  "0 < nat c \<Longrightarrow>
   modules_loop ''jsonl'' S dir c ((name, m) # items) st =
     (Some NameError,
      st\<lparr>files := files st @ [(Join dir (name @ ''.jsonl''), Written [])],
         samples := Suc (samples st)\<rparr>)"
proof -
  assume "0 < nat c"
  then obtain k where k: "nat c = Suc k" by (cases "nat c") simp_all
  show ?thesis by (simp add: module_step_def k)
qed

lemma regimes_loop_jsonl:
  assumes "\<forall>(regime, flat_modules) \<in> set fm. counts regime \<noteq> None"
  shows "regimes_loop ''jsonl'' S (Dir od) counts fm st =
     (if \<exists>j \<in> set (jobs od counts fm). 0 < j_count j
      then (Some NameError,
            st\<lparr>files := files st @ map jsonl_file
                   (take (Suc (length (takeWhile (\<lambda>j. j_count j = 0) (jobs od counts fm))))
                      (jobs od counts fm)),
               samples := Suc (samples st)\<rparr>)
      else (None, st\<lparr>files := files st @ map jsonl_file (jobs od counts fm)\<rparr>))"
  using assms
proof (induction fm arbitrary: st)
  case Nil
  then show ?case by (simp add: jobs_def)
next
  case (Cons r fm)
  obtain regime flat_modules where r: "r = (regime, flat_modules)" by (cases r)
  from Cons.prems obtain c where c: "counts regime = Some c" unfolding r by auto
  have rest: "\<forall>(regime, flat_modules) \<in> set fm. counts regime \<noteq> None" using Cons.prems by simp
  let ?js1 = "regime_jobs (Join (Dir od) regime) c flat_modules"
  let ?js2 = "jobs od counts fm"
  have j: "jobs od counts ((regime, flat_modules) # fm) = ?js1 @ ?js2"
    by (simp add: jobs_def c)
  have cnt: "\<forall>j \<in> set ?js1. j_count j = nat c" by (auto simp: regime_jobs_def)
  show ?case
  proof (cases "nat c = 0 \<or> flat_modules = []")
    case True
    then have z: "\<forall>j \<in> set ?js1. j_count j = 0" using cnt by (auto simp: regime_jobs_def)
    have m: "modules_loop ''jsonl'' S (Join (Dir od) regime) c flat_modules st =
        (None, st\<lparr>files := files st @ map jsonl_file ?js1\<rparr>)"
    proof (cases "nat c = 0")
      case True
      then show ?thesis
        using modules_loop_jsonl_zero [of c S "Join (Dir od) regime" flat_modules st]
        by (simp add: jsonl_file_def)
    next
      case False
      with \<open>nat c = 0 \<or> flat_modules = []\<close> have "flat_modules = []" by simp
      then show ?thesis by (simp add: regime_jobs_def)
    qed
    have tw: "takeWhile (\<lambda>j. j_count j = 0) (?js1 @ ?js2) = ?js1 @ takeWhile (\<lambda>j. j_count j = 0) ?js2"
      using z by (simp add: takeWhile_append2)
    have ex: "(\<exists>j \<in> set (?js1 @ ?js2). 0 < j_count j) \<longleftrightarrow> (\<exists>j \<in> set ?js2. 0 < j_count j)"
      using z by auto
    show ?thesis
      unfolding r j ex tw
      by (simp add: c m Cons.IH [OF rest])
  next
    case False
    then obtain name m items where f: "flat_modules = (name, m) # items" and p: "0 < nat c"
      by (cases flat_modules) auto
    have h: "?js1 = \<lparr>j_dir = Join (Dir od) regime, j_name = name, j_count = nat c, j_module = m\<rparr>
        # regime_jobs (Join (Dir od) regime) c items"
      by (simp add: regime_jobs_def f)
    let ?j0 = "\<lparr>j_dir = Join (Dir od) regime, j_name = name, j_count = nat c, j_module = m\<rparr>"
    have tw: "takeWhile (\<lambda>j. j_count j = 0) (?js1 @ ?js2) = []"
      unfolding h using p by simp
    have tk: "take (Suc (length ([] :: 'a job list))) (?js1 @ ?js2) = [?j0]"
      unfolding h by simp
    have ex: "\<exists>j \<in> set (?js1 @ ?js2). 0 < j_count j"
      unfolding h using p by simp
    have ml: "modules_loop ''jsonl'' S (Join (Dir od) regime) c flat_modules st =
        (Some NameError, st\<lparr>files := files st @ [jsonl_file ?j0], samples := Suc (samples st)\<rparr>)"
      unfolding f modules_loop_jsonl_positive [OF p] by (simp add: jsonl_file_def)
    have "regimes_loop ''jsonl'' S (Dir od) counts ((regime, flat_modules) # fm) st =
        (Some NameError, st\<lparr>files := files st @ [jsonl_file ?j0], samples := Suc (samples st)\<rparr>)"
      by (simp add: c ml)
    then show ?thesis
      unfolding r j tw tk using ex by simp
  qed
qed


text \<open>
  Claim C10, amended. With the format jsonl and a count for every regime, the run opens an
  empty file for each module of count 0 that the loops reach first, then opens the file of
  the first module with a positive count, samples one problem and raises NameError; when
  no module has a positive count it returns without an error after opening a file for
  every module. Every file that a run leaves is empty.
\<close>

theorem main_jsonl:
  assumes "\<forall>(regime, flat_modules) \<in> set filtered_modules. counts regime \<noteq> None"
    and "js = jobs output_dir counts filtered_modules"
  shows "main ''jsonl'' sample_from_module output_dir counts filtered_modules =
     (if \<exists>j \<in> set js. 0 < j_count j
      then (Some NameError,
            \<lparr>dataset_list = [],
             files = map jsonl_file (take (Suc (length (takeWhile (\<lambda>j. j_count j = 0) js))) js),
             samples = 1\<rparr>)
      else (None, \<lparr>dataset_list = [], files = map jsonl_file js, samples = 0\<rparr>))
    \<and> (\<forall>f \<in> set (files (snd (main ''jsonl'' sample_from_module output_dir counts filtered_modules))).
          snd f = Written [])"
proof -
  have m: "main ''jsonl'' sample_from_module output_dir counts filtered_modules =
     (if \<exists>j \<in> set js. 0 < j_count j
      then (Some NameError,
            \<lparr>dataset_list = [],
             files = map jsonl_file (take (Suc (length (takeWhile (\<lambda>j. j_count j = 0) js))) js),
             samples = 1\<rparr>)
      else (None, \<lparr>dataset_list = [], files = map jsonl_file js, samples = 0\<rparr>))"
    unfolding assms(2) main_def regimes_loop_jsonl [OF assms(1)] by simp
  have "\<forall>f \<in> set (files (snd (main ''jsonl'' sample_from_module output_dir counts filtered_modules))).
          snd f = Written []"
    unfolding m by (auto simp: jsonl_file_def dest: in_set_takeD)
  with m show ?thesis by blast
qed

lemma demo_jobs_zero:
  "jobs ''out'' demo_counts_zero demo_modules =
     [\<lparr>j_dir = Join (Dir ''out'') ''train-easy'', j_name = ''algebra__linear_1d'',
       j_count = 0, j_module = 0\<rparr>,
      \<lparr>j_dir = Join (Dir ''out'') ''interpolate'', j_name = ''algebra__linear_1d'',
       j_count = 0, j_module = 1\<rparr>]"
  by (simp add: jobs_def regime_jobs_def demo_modules_def demo_counts_zero_def)

lemma demo_counts_zero_defined:
  "\<forall>(regime, flat_modules) \<in> set demo_modules. demo_counts_zero regime \<noteq> None"
  by (simp add: demo_modules_def demo_counts_zero_def)

lemma demo_main_jsonl:
  "main ''jsonl'' demo_sampler ''out'' demo_counts demo_modules =
     (Some NameError,
      \<lparr>dataset_list = [],
       files =
         [(Join (Join (Dir ''out'') ''train-easy'') ''algebra__linear_1d.jsonl'', Written []),
          (Join (Join (Dir ''out'') ''interpolate'') ''algebra__linear_1d.jsonl'', Written [])],
       samples = 1\<rparr>)"
  "main ''jsonl'' demo_sampler ''out'' demo_counts_zero demo_modules =
     (None,
      \<lparr>dataset_list = [],
       files =
         [(Join (Join (Dir ''out'') ''train-easy'') ''algebra__linear_1d.jsonl'', Written []),
          (Join (Join (Dir ''out'') ''interpolate'') ''algebra__linear_1d.jsonl'', Written [])],
       samples = 0\<rparr>)"
  unfolding main_def regimes_loop_jsonl [OF demo_counts_defined(1)]
    regimes_loop_jsonl [OF demo_counts_zero_defined] demo_jobs demo_jobs_zero
  by (simp_all add: jsonl_file_def)

text \<open>
  Against claim C10 as stated: with a count of 0 everywhere the run raises no error, and
  with a count of 0 for the first regime only, the error is raised in the second module,
  after the file of the first one is complete.
\<close>

theorem main_jsonl_counterexample:
  "main ''jsonl'' demo_sampler ''out'' demo_counts_zero demo_modules =
     (None,
      \<lparr>dataset_list = [],
       files =
         [(Join (Join (Dir ''out'') ''train-easy'') ''algebra__linear_1d.jsonl'', Written []),
          (Join (Join (Dir ''out'') ''interpolate'') ''algebra__linear_1d.jsonl'', Written [])],
       samples = 0\<rparr>)
   \<and> main ''jsonl'' demo_sampler ''out'' demo_counts demo_modules =
     (Some NameError,
      \<lparr>dataset_list = [],
       files =
         [(Join (Join (Dir ''out'') ''train-easy'') ''algebra__linear_1d.jsonl'', Written []),
          (Join (Join (Dir ''out'') ''interpolate'') ''algebra__linear_1d.jsonl'', Written [])],
       samples = 1\<rparr>)"
  using demo_main_jsonl by simp

theorem main_jsonl_witness:
  "demo_counts_positive ''train-easy'' = Some 1
   \<and> demo_counts_positive ''interpolate'' = Some 2
   \<and> main ''jsonl'' demo_sampler ''out'' demo_counts_positive demo_modules =
     (Some NameError,
      \<lparr>dataset_list = [],
       files = [(Join (Join (Dir ''out'') ''train-easy'') ''algebra__linear_1d.jsonl'', Written [])],
       samples = 1\<rparr>)"
proof -
  from main_jsonl [OF demo_counts_defined(2) refl,
      where output_dir = "''out''" and sample_from_module = demo_sampler]
  have "main ''jsonl'' demo_sampler ''out'' demo_counts_positive demo_modules =
     (Some NameError,
      \<lparr>dataset_list = [],
       files = [(Join (Join (Dir ''out'') ''train-easy'') ''algebra__linear_1d.jsonl'', Written [])],
       samples = 1\<rparr>)"
    unfolding demo_jobs by (simp add: jsonl_file_def)
  then show ?thesis by (simp add: demo_counts_positive_def)
qed


end
